theory Spec2Isabelle
  imports Main "HOL-Library.Multiset"
begin

section \<open>Python values used by the sources\<close>

text \<open>
  Strings are ASCII character lists. Exceptions are values: every function that can raise
  returns \<open>exn + 'a\<close> together with the state it leaves behind.
\<close>

datatype exn =
    ValueError
  | AssertionError
  | GeniException string
  | ProcessExecutionError
  | FileNotFoundError

text \<open>
  \<^verbatim>\<open>str.strip()\<close>: the ASCII characters for which \<^verbatim>\<open>str.isspace()\<close> holds.
  Python strips the Unicode spaces beyond ASCII as well; file contents here are ASCII.
\<close>

definition py_isspace :: "char \<Rightarrow> bool" where
  "py_isspace c = (c \<in> set [CHR 0x09, CHR 0x0A, CHR 0x0B, CHR 0x0C, CHR 0x0D,
                            CHR 0x1C, CHR 0x1D, CHR 0x1E, CHR 0x1F, CHR '' ''])"

definition py_strip :: "string \<Rightarrow> string" where
  "py_strip s = rev (dropWhile py_isspace (rev (dropWhile py_isspace s)))"

text \<open>\<^verbatim>\<open>str.lstrip(chars)\<close> and \<^verbatim>\<open>str.rstrip(chars)\<close>.\<close>

definition py_lstrip :: "string \<Rightarrow> string \<Rightarrow> string" where
  "py_lstrip chars s = dropWhile (\<lambda>c. c \<in> set chars) s"

definition digit_val :: "char \<Rightarrow> nat option" where
  "digit_val c =
     map_of [(CHR ''0'', 0), (CHR ''1'', 1), (CHR ''2'', 2), (CHR ''3'', 3), (CHR ''4'', 4),
             (CHR ''5'', 5), (CHR ''6'', 6), (CHR ''7'', 7), (CHR ''8'', 8), (CHR ''9'', 9)] c"

definition digit_char :: "nat \<Rightarrow> char" where
  "digit_char d = ''0123456789'' ! d"

text \<open>\<^verbatim>\<open>str(n)\<close> for an integer: decimal digits, a minus sign for a negative number.\<close>

fun digits :: "nat \<Rightarrow> string" where
  "digits n = (if n < 10 then [digit_char n] else digits (n div 10) @ [digit_char (n mod 10)])"

declare digits.simps [simp del]

definition py_str :: "int \<Rightarrow> string" where
  "py_str i = (if i < 0 then CHR ''-'' # digits (nat (- i)) else digits (nat i))"

text \<open>
  \<^verbatim>\<open>int(s)\<close> for a string, base ten: surrounding whitespace is dropped, one sign is
  allowed, then digits, with single underscores allowed between digits. Anything else raises
  \<^verbatim>\<open>ValueError\<close>.
\<close>

fun parse_digits :: "nat \<Rightarrow> string \<Rightarrow> nat option" where
  "parse_digits acc [] = Some acc"
| "parse_digits acc (c # cs) =
     (if c = CHR ''_'' then
        (case cs of
           [] \<Rightarrow> None
         | d # _ \<Rightarrow> if digit_val d = None then None else parse_digits acc cs)
      else
        (case digit_val c of
           None \<Rightarrow> None
         | Some v \<Rightarrow> parse_digits (10 * acc + v) cs))"

definition parse_nat :: "string \<Rightarrow> nat option" where
  "parse_nat s =
     (case s of
        [] \<Rightarrow> None
      | c # cs \<Rightarrow> (case digit_val c of None \<Rightarrow> None | Some v \<Rightarrow> parse_digits v cs))"

definition py_int :: "string \<Rightarrow> exn + int" where
  "py_int s =
     (case py_strip s of
        [] \<Rightarrow> Inl ValueError
      | c # cs \<Rightarrow>
          if c = CHR ''-'' then
            (case parse_nat cs of None \<Rightarrow> Inl ValueError | Some n \<Rightarrow> Inr (- int n))
          else if c = CHR ''+'' then
            (case parse_nat cs of None \<Rightarrow> Inl ValueError | Some n \<Rightarrow> Inr (int n))
          else
            (case parse_nat (c # cs) of None \<Rightarrow> Inl ValueError | Some n \<Rightarrow> Inr (int n)))"

text \<open>A string made of decimal digits only.\<close>

definition all_digits :: "string \<Rightarrow> bool" where
  "all_digits s = list_all (\<lambda>c. digit_val c \<noteq> None) s"

text \<open>\<^verbatim>\<open>os.path.join(a, b)\<close> and \<^verbatim>\<open>os.path.basename(p)\<close> of \<^verbatim>\<open>posixpath\<close>.\<close>

definition os_path_join :: "string \<Rightarrow> string \<Rightarrow> string" where
  "os_path_join a b =
     (if b \<noteq> [] \<and> hd b = CHR ''/'' then b
      else if a = [] \<or> last a = CHR ''/'' then a @ b
      else a @ ''/'' @ b)"

definition os_path_basename :: "string \<Rightarrow> string" where
  "os_path_basename p = rev (takeWhile (\<lambda>c. c \<noteq> CHR ''/'') (rev p))"

section \<open>The machine the program runs on\<close>

text \<open>
  External commands are run through plumbum; a command that exits with a non-zero status
  raises \<^verbatim>\<open>ProcessExecutionError\<close>. Each invocation is written to \<open>log\<close> with its
  result.
\<close>

datatype cmd =
    Cmd_mount "string list" string string
  | Cmd_make_rslave string
  | Cmd_umount "string list" string
  | Cmd_cp string string
  | Cmd_rm string
  | Cmd_diff string string
  | Cmd_mountpoint string

text \<open>
  \<open>fs\<close> holds the regular files (path to content), \<open>symlinks\<close> the paths that are
  symbolic links, \<open>mtab\<close> the active mount points (the most recent first). \<open>outcomes\<close>
  is the environment's verdict on the external commands still to come, one entry per
  invocation: \<open>False\<close> makes the command fail whatever the state; when the list is used up
  the environment raises no further objection.
\<close>

record world =
  fs :: "string \<rightharpoonup> string"
  symlinks :: "string set"
  mtab :: "string list"
  outcomes :: "bool list"
  log :: "(cmd \<times> bool) list"

definition next_outcome :: "world \<Rightarrow> bool \<times> world" where
  "next_outcome w =
     (case outcomes w of
        [] \<Rightarrow> (True, w)
      | b # bs \<Rightarrow> (b, w\<lparr>outcomes := bs\<rparr>))"

text \<open>
  One invocation: the command succeeds when the environment lets it and its own
  precondition \<open>pre\<close> holds; only then its effect \<open>eff\<close> takes place.
\<close>

definition run_cmd :: "cmd \<Rightarrow> (world \<Rightarrow> bool) \<Rightarrow> (world \<Rightarrow> world) \<Rightarrow> world \<Rightarrow> (exn + unit) \<times> world" where
  "run_cmd c pre eff w =
     (case next_outcome w of
        (b, w1) \<Rightarrow>
          if b \<and> pre w1
          then (Inr (), (eff w1)\<lparr>log := log w1 @ [(c, True)]\<rparr>)
          else (Inl ProcessExecutionError, w1\<lparr>log := log w1 @ [(c, False)]\<rparr>))"

text \<open>\<^verbatim>\<open>os.remove(path)\<close>.\<close>

definition os_remove :: "string \<Rightarrow> world \<Rightarrow> (exn + unit) \<times> world" where
  "os_remove p w =
     (if fs w p = None then (Inl FileNotFoundError, w)
      else (Inr (), w\<lparr>fs := (fs w)(p := None)\<rparr>))"

text \<open>
  \<^verbatim>\<open>portalocker.Lock(path)\<close> opens the file for appending, which creates it when it is
  missing. The body of a \<^verbatim>\<open>with portalocker.Lock(...)\<close> block is run as one step, with
  no other process moving meanwhile, so the lock is free when it is asked for; an open that
  fails (a missing directory) is not part of the model.
\<close>

definition portalocker_Lock :: "string \<Rightarrow> world \<Rightarrow> world" where
  "portalocker_Lock p w = (if fs w p = None then w\<lparr>fs := (fs w)(p \<mapsto> [])\<rparr> else w)"

section \<open>\<^verbatim>\<open>util.py\<close>: FileSemaphore\<close>

record file_semaphore =
  sem_file_path :: string
  lock_file_path :: string

definition FileSemaphore_init :: "string \<Rightarrow> file_semaphore" where
  "FileSemaphore_init path = \<lparr>sem_file_path = path, lock_file_path = path @ ''.lock''\<rparr>"

text \<open>
  The lines shared by \<^verbatim>\<open>_read\<close> and \<^verbatim>\<open>_update\<close>:
  \<^verbatim>\<open>int(lock_file.read().strip() or 0)\<close> when the counter file exists, \<^verbatim>\<open>0\<close>
  otherwise.
\<close>

definition stored_counter :: "file_semaphore \<Rightarrow> world \<Rightarrow> exn + int" where
  "stored_counter self w =
     (case fs w (sem_file_path self) of
        Some content \<Rightarrow>
          (let s = py_strip content in if s = [] then Inr 0 else py_int s)
      | None \<Rightarrow> Inr 0)"

definition FileSemaphore_read :: "file_semaphore \<Rightarrow> world \<Rightarrow> (exn + int) \<times> world" where
  "FileSemaphore_read self w =
     (let w1 = portalocker_Lock (lock_file_path self) w;
          r = stored_counter self w1
      in case os_remove (lock_file_path self) w1 of
           (Inl e, w2) \<Rightarrow> (Inl e, w2)
         | (Inr _, w2) \<Rightarrow> (r, w2))"

text \<open>The \<^verbatim>\<open>finally\<close> block of \<^verbatim>\<open>_update\<close>, entered with the current \<open>counter\<close>.\<close>

definition update_finally ::
  "file_semaphore \<Rightarrow> int \<Rightarrow> exn + int \<Rightarrow> world \<Rightarrow> (exn + int) \<times> world" where
  "update_finally self counter r w =
     (case os_remove (lock_file_path self) w of
        (Inl e, w1) \<Rightarrow> (Inl e, w1)
      | (Inr _, w1) \<Rightarrow>
          if counter = 0 then
            (case os_remove (sem_file_path self) w1 of
               (Inl e, w2) \<Rightarrow> (Inl e, w2)
             | (Inr _, w2) \<Rightarrow> (r, w2))
          else (r, w1))"

definition FileSemaphore_update ::
  "file_semaphore \<Rightarrow> (int \<Rightarrow> int) \<Rightarrow> world \<Rightarrow> (exn + int) \<times> world" where
  "FileSemaphore_update self func w =
     (let w1 = portalocker_Lock (lock_file_path self) w in
      case stored_counter self w1 of
        Inl e \<Rightarrow> update_finally self (- 1) (Inl e) w1
      | Inr c \<Rightarrow>
          (let counter = func c;
               w2 = w1\<lparr>fs := (fs w1)(sem_file_path self \<mapsto> py_str counter)\<rparr>
           in update_finally self counter (Inr counter) w2))"

text \<open>
  The same method statement by statement, for a call that other processes overlap: the
  \<^verbatim>\<open>with\<close> block (it yields the local \<open>counter\<close>, the pending return value or
  exception, and the machine; when it is left the lock is released), then the two statements of
  the \<^verbatim>\<open>finally\<close> block, \<^verbatim>\<open>os.remove(self.lock_file_path)\<close> and
  \<^verbatim>\<open>if counter == 0: os.remove(self.sem_file_path)\<close>.
\<close>

definition update_locked ::
  "file_semaphore \<Rightarrow> (int \<Rightarrow> int) \<Rightarrow> world \<Rightarrow> int \<times> (exn + int) \<times> world" where
  "update_locked self func w =
     (let w1 = portalocker_Lock (lock_file_path self) w in
      case stored_counter self w1 of
        Inl e \<Rightarrow> (- 1, Inl e, w1)
      | Inr c \<Rightarrow>
          (let counter = func c;
               w2 = w1\<lparr>fs := (fs w1)(sem_file_path self \<mapsto> py_str counter)\<rparr>
           in (counter, Inr counter, w2)))"

definition finally_remove_lock :: "file_semaphore \<Rightarrow> world \<Rightarrow> (exn + unit) \<times> world" where
  "finally_remove_lock self w = os_remove (lock_file_path self) w"

definition finally_remove_counter ::
  "file_semaphore \<Rightarrow> int \<Rightarrow> exn + int \<Rightarrow> world \<Rightarrow> (exn + int) \<times> world" where
  "finally_remove_counter self counter r w =
     (if counter = 0 then
        (case os_remove (sem_file_path self) w of
           (Inl e, w1) \<Rightarrow> (Inl e, w1)
         | (Inr _, w1) \<Rightarrow> (r, w1))
      else (r, w))"

definition FileSemaphore_down :: "file_semaphore \<Rightarrow> world \<Rightarrow> (exn + int) \<times> world" where
  "FileSemaphore_down self w = FileSemaphore_update self (\<lambda>counter. counter - 1) w"

definition FileSemaphore_get :: "file_semaphore \<Rightarrow> world \<Rightarrow> (exn + int) \<times> world" where
  "FileSemaphore_get self w = FileSemaphore_read self w"

definition FileSemaphore_up :: "file_semaphore \<Rightarrow> world \<Rightarrow> (exn + int) \<times> world" where
  "FileSemaphore_up self w = FileSemaphore_update self (\<lambda>counter. counter + 1) w"

section \<open>\<^verbatim>\<open>util.py\<close>: ExceptionEater, FileInstaller, FileTempInst\<close>

record exception_eater =
  exceptions :: "exn list"

definition ExceptionEater_init :: exception_eater where
  "ExceptionEater_init = \<lparr>exceptions = []\<rparr>"

text \<open>
  \<^verbatim>\<open>eat\<close> receives the outcome of the call it wraps; the state the call left behind stays
  with the caller.
\<close>

definition ExceptionEater_eat ::
  "exception_eater \<Rightarrow> exn + 'a \<Rightarrow> ('a option \<times> exn option) \<times> exception_eater" where
  "ExceptionEater_eat self r =
     (case r of
        Inr v \<Rightarrow> ((Some v, None), self)
      | Inl exception \<Rightarrow>
          ((None, Some exception), self\<lparr>exceptions := exceptions self @ [exception]\<rparr>))"

definition ExceptionEater_raise_first_if_any :: "exception_eater \<Rightarrow> exn + unit" where
  "ExceptionEater_raise_first_if_any self =
     (case exceptions self of [] \<Rightarrow> Inr () | e # _ \<Rightarrow> Inl e)"

record file_installer =
  source_base_dir :: string
  target_base_dir :: string
  files :: "string list"

definition FileInstaller_init :: "string \<Rightarrow> string \<Rightarrow> file_installer" where
  "FileInstaller_init source_base target_base =
     \<lparr>source_base_dir = source_base, target_base_dir = target_base, files = []\<rparr>"

definition make_source_path :: "file_installer \<Rightarrow> string \<Rightarrow> string" where
  "make_source_path self rel_path = os_path_join (source_base_dir self) (py_lstrip ''/'' rel_path)"

definition make_target_path :: "file_installer \<Rightarrow> string \<Rightarrow> string" where
  "make_target_path self rel_path = os_path_join (target_base_dir self) (py_lstrip ''/'' rel_path)"

text \<open>\<^verbatim>\<open>sudo rm target\<close>: fails when there is no such file.\<close>

definition FileInstaller_remove :: "file_installer \<Rightarrow> string \<Rightarrow> world \<Rightarrow> (exn + unit) \<times> world" where
  "FileInstaller_remove self rel_path w =
     (let target_path = make_target_path self rel_path
      in run_cmd (Cmd_rm target_path)
           (\<lambda>w. fs w target_path \<noteq> None)
           (\<lambda>w. w\<lparr>fs := (fs w)(target_path := None)\<rparr>) w)"

text \<open>\<^verbatim>\<open>diff source target\<close>: exit status 0 only when both files exist and are equal.\<close>

definition FileInstaller_ensure_is_copied ::
  "file_installer \<Rightarrow> string \<Rightarrow> world \<Rightarrow> (exn + unit) \<times> world" where
  "FileInstaller_ensure_is_copied self rel_path w =
     (let source_path = make_source_path self rel_path;
          target_path = make_target_path self rel_path
      in run_cmd (Cmd_diff source_path target_path)
           (\<lambda>w. fs w source_path \<noteq> None \<and> fs w source_path = fs w target_path)
           (\<lambda>w. w) w)"

text \<open>
  \<^verbatim>\<open>sudo cp --dereference source target\<close>: needs the source and refuses to copy a
  file onto itself; the target file is created or, when it is there already, overwritten (the
  command line carries no no-clobber option).
\<close>

definition FileInstaller_copy ::
  "file_installer \<Rightarrow> string \<Rightarrow> world \<Rightarrow> (exn + string) \<times> world \<times> file_installer" where
  "FileInstaller_copy self rel_path w =
     (let source_path = make_source_path self rel_path;
          target_path = make_target_path self rel_path
      in case run_cmd (Cmd_cp source_path target_path)
                (\<lambda>w. fs w source_path \<noteq> None \<and> source_path \<noteq> target_path)
                (\<lambda>w. w\<lparr>fs := (fs w)(target_path := fs w source_path)\<rparr>) w of
           (Inl e, w1) \<Rightarrow> (Inl e, w1, self)
         | (Inr _, w1) \<Rightarrow> (Inr target_path, w1, self\<lparr>files := files self @ [rel_path]\<rparr>))"

function FileInstaller_uninstall_all ::
  "file_installer \<Rightarrow> world \<Rightarrow> (exn + unit) \<times> world \<times> file_installer" where
  "FileInstaller_uninstall_all self w =
     (if files self \<noteq> [] then
        (let rel_path = last (files self);
             self1 = self\<lparr>files := butlast (files self)\<rparr>
         in case FileInstaller_remove self1 rel_path w of
              (Inl e, w1) \<Rightarrow> (Inl e, w1, self1)
            | (Inr _, w1) \<Rightarrow> FileInstaller_uninstall_all self1 w1)
      else (Inr (), w, self))"
  by pat_completeness auto
termination
  by (relation "measure (\<lambda>(self, w). length (files self))") auto

declare FileInstaller_uninstall_all.simps [simp del]

record file_temp_inst =
  inst :: file_installer
  file_path :: string

definition FileTempInst_init :: "string \<Rightarrow> string \<Rightarrow> file_temp_inst" where
  "FileTempInst_init chroot_dir path =
     \<lparr>inst = FileInstaller_init ''/'' chroot_dir, file_path = path\<rparr>"

definition FileTempInst_copy ::
  "file_temp_inst \<Rightarrow> world \<Rightarrow> (exn + unit) \<times> world \<times> file_temp_inst" where
  "FileTempInst_copy self w =
     (case FileInstaller_copy (inst self) (file_path self) w of
        (Inl e, w1, i1) \<Rightarrow> (Inl e, w1, self\<lparr>inst := i1\<rparr>)
      | (Inr _, w1, i1) \<Rightarrow> (Inr (), w1, self\<lparr>inst := i1\<rparr>))"

definition FileTempInst_ensure_is_copied ::
  "file_temp_inst \<Rightarrow> world \<Rightarrow> (exn + unit) \<times> world" where
  "FileTempInst_ensure_is_copied self w =
     FileInstaller_ensure_is_copied (inst self) (file_path self) w"

definition FileTempInst_remove ::
  "file_temp_inst \<Rightarrow> world \<Rightarrow> (exn + unit) \<times> world \<times> file_temp_inst" where
  "FileTempInst_remove self w =
     (case FileInstaller_uninstall_all (inst self) w of
        (r, w1, i1) \<Rightarrow> (r, w1, self\<lparr>inst := i1\<rparr>))"

section \<open>\<^verbatim>\<open>mount.py\<close>: Mount and MountsManager\<close>

record mount =
  device :: string
  mount_point :: string
  opts :: "string list"
  make_rslave :: bool

definition Mount_init :: "string \<Rightarrow> string \<Rightarrow> string list \<Rightarrow> bool \<Rightarrow> mount" where
  "Mount_init dev mp os rslave =
     \<lparr>device = dev, mount_point = mp, opts = os, make_rslave = rslave\<rparr>"

text \<open>
  \<^verbatim>\<open>sudo mount opts device mount_point\<close> puts the mount point into the mount table;
  \<^verbatim>\<open>sudo mount --make-rslave mount_point\<close> changes the propagation of an active mount.
\<close>

definition Mount_mount :: "mount \<Rightarrow> world \<Rightarrow> (exn + unit) \<times> world" where
  "Mount_mount self w =
     (case run_cmd (Cmd_mount (opts self) (device self) (mount_point self))
             (\<lambda>w. True)
             (\<lambda>w. w\<lparr>mtab := mount_point self # mtab w\<rparr>) w of
        (Inl e, w1) \<Rightarrow> (Inl e, w1)
      | (Inr _, w1) \<Rightarrow>
          if make_rslave self then
            run_cmd (Cmd_make_rslave (mount_point self))
              (\<lambda>w. mount_point self \<in> set (mtab w))
              (\<lambda>w. w) w1
          else (Inr (), w1))"

text \<open>
  \<^verbatim>\<open>sudo umount [-R] mount_point\<close> fails on a path that is not mounted; otherwise it
  takes the topmost mount off that mount point.
\<close>

definition Mount_umount :: "mount \<Rightarrow> world \<Rightarrow> (exn + unit) \<times> world" where
  "Mount_umount self w =
     (let os = (if make_rslave self then [''-R''] else [])
      in run_cmd (Cmd_umount os (mount_point self))
           (\<lambda>w. mount_point self \<in> set (mtab w))
           (\<lambda>w. w\<lparr>mtab := remove1 (mount_point self) (mtab w)\<rparr>) w)"

record mounts_manager =
  base_dir :: string
  mounts :: "mount list"

definition MountsManager_init :: "string \<Rightarrow> mounts_manager" where
  "MountsManager_init dir = \<lparr>base_dir = dir, mounts = []\<rparr>"

definition MountsManager_add ::
  "mounts_manager \<Rightarrow> mount \<Rightarrow> world \<Rightarrow> (exn + unit) \<times> world \<times> mounts_manager" where
  "MountsManager_add self mnt w =
     (let self1 = self\<lparr>mounts := mounts self @ [mnt]\<rparr>
      in case Mount_mount mnt w of
           (r, w1) \<Rightarrow> (r, w1, self1))"

definition MountsManager_mount ::
  "mounts_manager \<Rightarrow> string \<Rightarrow> string \<Rightarrow> string list \<Rightarrow> bool \<Rightarrow> world
     \<Rightarrow> (exn + unit) \<times> world \<times> mounts_manager" where
  "MountsManager_mount self dev directory os rslave w =
     (let mp = os_path_join (base_dir self) (py_lstrip ''/'' directory);
          mnt = Mount_init dev mp os rslave
      in MountsManager_add self mnt w)"

function MountsManager_umount_all ::
  "mounts_manager \<Rightarrow> world \<Rightarrow> (exn + unit) \<times> world \<times> mounts_manager" where
  "MountsManager_umount_all self w =
     (if mounts self \<noteq> [] then
        (let mnt = last (mounts self);
             self1 = self\<lparr>mounts := butlast (mounts self)\<rparr>
         in case Mount_umount mnt w of
              (Inl e, w1) \<Rightarrow> (Inl e, w1, self1)
            | (Inr _, w1) \<Rightarrow> MountsManager_umount_all self1 w1)
      else (Inr (), w, self))"
  by pat_completeness auto
termination
  by (relation "measure (\<lambda>(self, w). length (mounts self))") auto

declare MountsManager_umount_all.simps [simp del]

section \<open>\<^verbatim>\<open>chroot.py\<close>: Chroot\<close>

datatype chroot_exec = ChrootExec string

record chroot =
  chroot_dir :: string
  mounts_mgr :: mounts_manager
  semaphore :: file_semaphore
  resolv_conf :: file_temp_inst
  master :: bool

text \<open>
  \<^verbatim>\<open>hash_path\<close> (the SHA-1 of the path, in hexadecimal) is a parameter of the
  constructor.
\<close>

definition Chroot_init :: "(string \<Rightarrow> string) \<Rightarrow> string \<Rightarrow> string \<Rightarrow> chroot" where
  "Chroot_init hash_path dir work_dir =
     (let chroot_name = os_path_basename dir;
          chroot_path_hash = hash_path dir
      in \<lparr>chroot_dir = dir,
          mounts_mgr = MountsManager_init dir,
          semaphore = FileSemaphore_init
            (os_path_join work_dir
               (''._geni_chroot_'' @ chroot_name @ ''_'' @ chroot_path_hash @ ''_cnt'')),
          resolv_conf = FileTempInst_init dir ''/etc/resolv.conf'',
          master = False\<rparr>)"

text \<open>
  Methods of \<^verbatim>\<open>Chroot\<close> work on the pair of the machine and the object. \<open>and_then\<close>
  is the semicolon: the next statement runs unless the one before raised.
\<close>

definition and_then ::
  "(exn + 'a) \<times> 's \<Rightarrow> ('s \<Rightarrow> (exn + 'b) \<times> 's) \<Rightarrow> (exn + 'b) \<times> 's" where
  "and_then r f = (case r of (Inl e, s) \<Rightarrow> (Inl e, s) | (Inr _, s) \<Rightarrow> f s)"

definition mounts_mgr_mount ::
  "string \<Rightarrow> string \<Rightarrow> string list \<Rightarrow> bool \<Rightarrow> world \<times> chroot \<Rightarrow> (exn + unit) \<times> (world \<times> chroot)" where
  "mounts_mgr_mount dev directory os rslave s =
     (case s of (w, self) \<Rightarrow>
        (case MountsManager_mount (mounts_mgr self) dev directory os rslave w of
           (r, w1, m1) \<Rightarrow> (r, (w1, self\<lparr>mounts_mgr := m1\<rparr>))))"

definition resolv_conf_copy :: "world \<times> chroot \<Rightarrow> (exn + unit) \<times> (world \<times> chroot)" where
  "resolv_conf_copy s =
     (case s of (w, self) \<Rightarrow>
        (case FileTempInst_copy (resolv_conf self) w of
           (r, w1, t1) \<Rightarrow> (r, (w1, self\<lparr>resolv_conf := t1\<rparr>))))"

definition resolv_conf_ensure_is_copied ::
  "world \<times> chroot \<Rightarrow> (exn + unit) \<times> (world \<times> chroot)" where
  "resolv_conf_ensure_is_copied s =
     (case s of (w, self) \<Rightarrow>
        (case FileTempInst_ensure_is_copied (resolv_conf self) w of
           (r, w1) \<Rightarrow> (r, (w1, self))))"

definition resolv_conf_remove :: "world \<times> chroot \<Rightarrow> (exn + unit) \<times> (world \<times> chroot)" where
  "resolv_conf_remove s =
     (case s of (w, self) \<Rightarrow>
        (case FileTempInst_remove (resolv_conf self) w of
           (r, w1, t1) \<Rightarrow> (r, (w1, self\<lparr>resolv_conf := t1\<rparr>))))"

text \<open>\<^verbatim>\<open>mountpoint -q path\<close> for each path in turn; the first failure raises.\<close>

fun mountpoint_each :: "string list \<Rightarrow> world \<Rightarrow> (exn + unit) \<times> world" where
  "mountpoint_each [] w = (Inr (), w)"
| "mountpoint_each (mp_path # rest) w =
     (case run_cmd (Cmd_mountpoint mp_path) (\<lambda>w. mp_path \<in> set (mtab w)) (\<lambda>w. w) w of
        (Inl e, w1) \<Rightarrow> (Inl e, w1)
      | (Inr _, w1) \<Rightarrow> mountpoint_each rest w1)"

definition ensure_all_mounted :: "world \<times> chroot \<Rightarrow> (exn + unit) \<times> (world \<times> chroot)" where
  "ensure_all_mounted s =
     (case s of (w, self) \<Rightarrow>
        (case mountpoint_each [''/tmp'', ''/proc'', ''/sys'', ''/dev''] w of
           (r, w1) \<Rightarrow> (r, (w1, self))))"

definition mount_all :: "world \<times> chroot \<Rightarrow> (exn + unit) \<times> (world \<times> chroot)" where
  "mount_all s =
     and_then (mounts_mgr_mount ''geni_tmpfs'' ''/tmp'' [''--types'', ''tmpfs''] False s)
       (\<lambda>s1. if ''/dev/shm'' \<in> symlinks (fst s1)
             then (Inl (GeniException ''/dev/shm is not a directory''), s1)
             else
               and_then (mounts_mgr_mount ''/proc'' ''/proc'' [''--types'', ''proc''] True s1)
                 (\<lambda>s2. and_then (mounts_mgr_mount ''/sys'' ''/sys'' [''--rbind''] True s2)
                   (\<lambda>s3. mounts_mgr_mount ''/dev'' ''/dev'' [''--rbind''] True s3)))"

definition umount_all :: "world \<times> chroot \<Rightarrow> (exn + unit) \<times> (world \<times> chroot)" where
  "umount_all s =
     (case s of (w, self) \<Rightarrow>
        (case MountsManager_umount_all (mounts_mgr self) w of
           (r, w1, m1) \<Rightarrow> (r, (w1, self\<lparr>mounts_mgr := m1\<rparr>))))"

text \<open>
  \<^verbatim>\<open>prepare\<close> after \<^verbatim>\<open>self.semaphore.up()\<close> has returned: the branch on
  \<^verbatim>\<open>up() == 1\<close>, then the two checks.
\<close>

definition prepare_rest :: "bool \<Rightarrow> world \<times> chroot \<Rightarrow> (exn + unit) \<times> (world \<times> chroot)" where
  "prepare_rest first s =
     and_then
       (if first then
          (case s of (w, self) \<Rightarrow>
             and_then (resolv_conf_copy (w, self\<lparr>master := True\<rparr>)) mount_all)
        else
          (case s of (w, self) \<Rightarrow>
             (case FileSemaphore_get (semaphore self) w of
                (Inl e, w1) \<Rightarrow> (Inl e, (w1, self))
              | (Inr v, w1) \<Rightarrow>
                  if v > 1 then (Inr (), (w1, self)) else (Inl AssertionError, (w1, self)))))
       (\<lambda>s1. and_then (resolv_conf_ensure_is_copied s1) ensure_all_mounted)"

definition prepare :: "world \<times> chroot \<Rightarrow> (exn + unit) \<times> (world \<times> chroot)" where
  "prepare s =
     (case s of (w, self) \<Rightarrow>
        (case FileSemaphore_up (semaphore self) w of
           (Inl e, w1) \<Rightarrow> (Inl e, (w1, self))
         | (Inr v, w1) \<Rightarrow> prepare_rest (v = 1) (w1, self)))"

text \<open>
  The master's teardown in \<^verbatim>\<open>clean_up\<close>, from \<^verbatim>\<open>exc_eater = ExceptionEater()\<close>
  on.
\<close>

definition teardown :: "world \<times> chroot \<Rightarrow> (exn + unit) \<times> (world \<times> chroot)" where
  "teardown s =
     (let exc_eater = ExceptionEater_init in
      case umount_all s of (r1, s1) \<Rightarrow>
      case ExceptionEater_eat exc_eater r1 of (_, exc_eater1) \<Rightarrow>
      case resolv_conf_remove s1 of (r2, s2) \<Rightarrow>
      case ExceptionEater_eat exc_eater1 r2 of (_, exc_eater2) \<Rightarrow>
      case s2 of (w2, self2) \<Rightarrow>
        (ExceptionEater_raise_first_if_any exc_eater2, (w2, self2\<lparr>master := False\<rparr>)))"

text \<open>
  \<^verbatim>\<open>while self.semaphore.get() > 0: time.sleep(3)\<close>. Run by one process alone the loop
  may never end; then the value is \<open>None\<close>.
\<close>

partial_function (option) wait_drained ::
  "file_semaphore \<Rightarrow> world \<Rightarrow> ((exn + unit) \<times> world) option" where
  "wait_drained sem w =
     (case FileSemaphore_get sem w of
        (Inl e, w1) \<Rightarrow> Some (Inl e, w1)
      | (Inr v, w1) \<Rightarrow> if v > 0 then wait_drained sem w1 else Some (Inr (), w1))"

definition clean_up :: "world \<times> chroot \<Rightarrow> ((exn + unit) \<times> (world \<times> chroot)) option" where
  "clean_up s =
     (case s of (w, self) \<Rightarrow>
        (case FileSemaphore_down (semaphore self) w of
           (Inl e, w1) \<Rightarrow> Some (Inl e, (w1, self))
         | (Inr _, w1) \<Rightarrow>
             if master self then
               (case wait_drained (semaphore self) w1 of
                  None \<Rightarrow> None
                | Some (Inl e, w2) \<Rightarrow> Some (Inl e, (w2, self))
                | Some (Inr _, w2) \<Rightarrow> Some (teardown (w2, self)))
             else Some (Inr (), (w1, self))))"

text \<open>\<^verbatim>\<open>clean_up\<close> from the return of \<^verbatim>\<open>self.semaphore.down()\<close> on.\<close>

definition clean_up_rest ::
  "world \<times> chroot \<Rightarrow> ((exn + unit) \<times> (world \<times> chroot)) option" where
  "clean_up_rest s =
     (case s of (w1, self) \<Rightarrow>
        if master self then
          (case wait_drained (semaphore self) w1 of
             None \<Rightarrow> None
           | Some (Inl e, w2) \<Rightarrow> Some (Inl e, (w2, self))
           | Some (Inr _, w2) \<Rightarrow> Some (teardown (w2, self)))
        else Some (Inr (), (w1, self)))"

text \<open>
  \<^verbatim>\<open>__enter__\<close>: when \<^verbatim>\<open>prepare\<close> raises, \<^verbatim>\<open>clean_up\<close> runs and the exception is
  raised again, unless \<^verbatim>\<open>clean_up\<close> raises one of its own. \<^verbatim>\<open>__exit__\<close> runs
  \<^verbatim>\<open>clean_up\<close> and suppresses nothing.
\<close>

definition Chroot_enter ::
  "world \<times> chroot \<Rightarrow> ((exn + chroot_exec) \<times> (world \<times> chroot)) option" where
  "Chroot_enter s =
     (case prepare s of
        (Inl e, s1) \<Rightarrow>
          (case clean_up s1 of
             None \<Rightarrow> None
           | Some (Inl e', s2) \<Rightarrow> Some (Inl e', s2)
           | Some (Inr _, s2) \<Rightarrow> Some (Inl e, s2))
      | (Inr _, s1) \<Rightarrow> Some (Inr (ChrootExec (chroot_dir (snd s1))), s1))"

definition Chroot_exit :: "world \<times> chroot \<Rightarrow> ((exn + unit) \<times> (world \<times> chroot)) option" where
  "Chroot_exit s = clean_up s"

section \<open>Properties: strings and integers\<close>

lemma digit_val_digit_char: "d < 10 \<Longrightarrow> digit_val (digit_char d) = Some d"
proof -
  assume "d < 10"
  then have "d \<in> {0,1,2,3,4,5,6,7,8,9}" by auto
  then show ?thesis by (auto simp: digit_val_def digit_char_def)
qed

lemma digit_val_Some_cases:
  "digit_val c = Some v \<Longrightarrow> c \<in> set ''0123456789'' \<and> v < 10"
  by (auto simp: digit_val_def split: if_splits)

lemma digit_not_special:
  assumes "digit_val c = Some v"
  shows "c \<noteq> CHR ''_''" "c \<noteq> CHR ''-''" "c \<noteq> CHR ''+''" "\<not> py_isspace c"
  using digit_val_Some_cases [OF assms] by (auto simp: py_isspace_def)

lemma parse_digits_all_digits:
  "all_digits s \<Longrightarrow>
   parse_digits acc s = Some (foldl (\<lambda>a c. 10 * a + the (digit_val c)) acc s)"
proof (induction s arbitrary: acc)
  case Nil
  then show ?case by simp
next
  case (Cons c cs)
  then obtain v where v: "digit_val c = Some v" by (auto simp: all_digits_def list_all_iff)
  from Cons.prems have "all_digits cs" by (simp add: all_digits_def list_all_iff)
  with Cons.IH v digit_not_special(1) [OF v] show ?case by simp
qed

lemma all_digits_digits: "all_digits (digits n)"
proof (induction n rule: digits.induct)
  case (1 n)
  show ?case
  proof (cases "n < 10")
    case True
    then show ?thesis
      by (subst digits.simps) (simp add: all_digits_def list_all_iff digit_val_digit_char)
  next
    case False
    with "1" have "all_digits (digits (n div 10))" by simp
    moreover have "digit_val (digit_char (n mod 10)) \<noteq> None"
      by (simp add: digit_val_digit_char)
    ultimately show ?thesis using False
      by (subst digits.simps) (simp add: all_digits_def list_all_iff)
  qed
qed

lemma digits_value: "foldl (\<lambda>a c. 10 * a + the (digit_val c)) 0 (digits n) = n"
proof (induction n rule: digits.induct)
  case (1 n)
  show ?case
  proof (cases "n < 10")
    case True
    then show ?thesis by (subst digits.simps) (simp add: digit_val_digit_char)
  next
    case False
    with "1" have "foldl (\<lambda>a c. 10 * a + the (digit_val c)) 0 (digits (n div 10)) = n div 10"
      by simp
    with False show ?thesis
      by (subst digits.simps) (simp add: digit_val_digit_char)
  qed
qed

lemma digits_nonempty: "digits n \<noteq> []"
  by (subst digits.simps) simp

lemma parse_nat_all_digits:
  "s \<noteq> [] \<Longrightarrow> all_digits s \<Longrightarrow> parse_nat s = parse_digits 0 s"
proof (cases s)
  case Nil
  assume "s \<noteq> []"
  with Nil show ?thesis by simp
next
  case (Cons c cs)
  assume "all_digits s"
  with Cons obtain v where v: "digit_val c = Some v" by (auto simp: all_digits_def list_all_iff)
  from digit_not_special(1) [OF v] v Cons show ?thesis by (simp add: parse_nat_def)
qed

lemma parse_nat_digits: "parse_nat (digits n) = Some n"
  by (simp add: parse_nat_all_digits digits_nonempty all_digits_digits
      parse_digits_all_digits digits_value)

lemma py_strip_id:
  "s \<noteq> [] \<Longrightarrow> \<not> py_isspace (hd s) \<Longrightarrow> \<not> py_isspace (last s) \<Longrightarrow> py_strip s = s"
proof -
  assume a: "s \<noteq> []" "\<not> py_isspace (hd s)" "\<not> py_isspace (last s)"
  then have "dropWhile py_isspace s = s" by (cases s) auto
  moreover from a have "dropWhile py_isspace (rev s) = rev s"
    by (cases "rev s") (auto simp: last_rev hd_rev)
  ultimately show ?thesis by (simp add: py_strip_def)
qed

lemma all_digits_no_space: "all_digits s \<Longrightarrow> c \<in> set s \<Longrightarrow> \<not> py_isspace c"
  by (auto simp: all_digits_def list_all_iff dest: digit_not_special(4))

lemma py_strip_digits: "py_strip (digits n) = digits n"
  using all_digits_no_space [OF all_digits_digits, of _ n] digits_nonempty [of n]
  by (intro py_strip_id) auto

lemma py_strip_minus_digits: "py_strip (CHR ''-'' # digits n) = CHR ''-'' # digits n"
  using all_digits_no_space [OF all_digits_digits, of _ n] digits_nonempty [of n]
  by (intro py_strip_id) (auto simp: py_isspace_def)

lemma hd_digits: "digits n = c # cs \<Longrightarrow> c \<noteq> CHR ''-'' \<and> c \<noteq> CHR ''+''"
  using all_digits_digits [of n]
  by (auto simp: all_digits_def list_all_iff dest: digit_not_special)

lemma py_strip_py_str: "py_strip (py_str i) = py_str i"
  by (simp add: py_str_def py_strip_digits py_strip_minus_digits)

lemma py_str_nonempty: "py_str i \<noteq> []"
  by (simp add: py_str_def digits_nonempty)

lemma py_int_py_str: "py_int (py_str i) = Inr i"
proof (cases "i < 0")
  case True
  then show ?thesis
    by (simp add: py_int_def py_str_def py_strip_minus_digits parse_nat_digits)
next
  case False
  obtain c cs where d: "digits (nat i) = c # cs"
    using digits_nonempty [of "nat i"] by (cases "digits (nat i)") auto
  have s: "py_strip (c # cs) = c # cs"
    using py_strip_digits [of "nat i"] d by simp
  from hd_digits [OF d] parse_nat_digits [of "nat i"] False d s show ?thesis
    by (simp add: py_int_def py_str_def)
qed

section \<open>Properties: the semaphore\<close>

lemma stored_counter_fs:
  "stored_counter self (w\<lparr>fs := F\<rparr>) =
     (case F (sem_file_path self) of
        Some content \<Rightarrow> (let s = py_strip content in if s = [] then Inr 0 else py_int s)
      | None \<Rightarrow> Inr 0)"
  by (simp add: stored_counter_def)

lemma stored_counter_cong:
  "fs w' (sem_file_path self) = fs w (sem_file_path self) \<Longrightarrow>
   stored_counter self w' = stored_counter self w"
  by (simp add: stored_counter_def)

lemma stored_counter_written:
  "fs w (sem_file_path self) = Some (py_str i) \<Longrightarrow> stored_counter self w = Inr i"
  by (simp add: stored_counter_def py_strip_py_str py_str_nonempty py_int_py_str)

lemma Lock_fs_update [simp]: "(portalocker_Lock p w)\<lparr>fs := F\<rparr> = w\<lparr>fs := F\<rparr>"
  by (simp add: portalocker_Lock_def)

lemma Lock_exists [simp]: "fs (portalocker_Lock p w) p \<noteq> None"
  by (simp add: portalocker_Lock_def)

lemma Lock_other [simp]: "p \<noteq> q \<Longrightarrow> fs (portalocker_Lock p w) q = fs w q"
  by (simp add: portalocker_Lock_def)

lemma Lock_erase [simp]: "(fs (portalocker_Lock p w))(p := None) = (fs w)(p := None)"
  by (auto simp: portalocker_Lock_def)

lemma Lock_erase2 [simp]:
  "p \<noteq> q \<Longrightarrow> (fs (portalocker_Lock p w))(q := x, p := None) = (fs w)(q := x, p := None)"
  by (auto simp: portalocker_Lock_def)

lemma FileSemaphore_update_ok:
  assumes "lock_file_path self \<noteq> sem_file_path self"
    and "stored_counter self w = Inr v"
  shows "FileSemaphore_update self f w =
           (Inr (f v),
            w\<lparr>fs := (fs w)(lock_file_path self := None,
                            sem_file_path self :=
                              (if f v = 0 then None else Some (py_str (f v))))\<rparr>)"
proof -
  let ?w1 = "portalocker_Lock (lock_file_path self) w"
  have s1: "stored_counter self ?w1 = Inr v"
    using assms stored_counter_cong [of ?w1 self w] by simp
  have t: "(fs w)(sem_file_path self := x, lock_file_path self := None) =
           (fs w)(lock_file_path self := None, sem_file_path self := x)" for x
    using assms(1) by (simp add: fun_upd_twist)
  show ?thesis
    using assms(1)
    by (simp add: FileSemaphore_update_def s1 Let_def update_finally_def os_remove_def t)
qed

lemma FileSemaphore_update_err:
  assumes "lock_file_path self \<noteq> sem_file_path self"
    and "stored_counter self w = Inl e"
  shows "FileSemaphore_update self f w =
           (Inl e, w\<lparr>fs := (fs w)(lock_file_path self := None)\<rparr>)"
proof -
  let ?w1 = "portalocker_Lock (lock_file_path self) w"
  have s1: "stored_counter self ?w1 = Inl e"
    using assms stored_counter_cong [of ?w1 self w] by simp
  show ?thesis
    using assms(1)
    by (simp add: FileSemaphore_update_def s1 Let_def update_finally_def os_remove_def)
qed

lemma FileSemaphore_read_eq:
  assumes "lock_file_path self \<noteq> sem_file_path self"
  shows "FileSemaphore_read self w =
           (stored_counter self w, w\<lparr>fs := (fs w)(lock_file_path self := None)\<rparr>)"
proof -
  let ?w1 = "portalocker_Lock (lock_file_path self) w"
  have s1: "stored_counter self ?w1 = stored_counter self w"
    using assms stored_counter_cong [of ?w1 self w] by simp
  show ?thesis
    by (simp add: FileSemaphore_read_def s1 Let_def os_remove_def)
qed

lemma init_paths [simp]:
  "sem_file_path (FileSemaphore_init path) = path"
  "lock_file_path (FileSemaphore_init path) = path @ ''.lock''"
  by (simp_all add: FileSemaphore_init_def)

text \<open>
  Claim C2. On a counter file whose content reads as the integer \<open>v\<close> (a missing file
  reads as 0), \<^verbatim>\<open>up()\<close> returns \<open>v + 1\<close> and leaves a counter that reads \<open>v + 1\<close>,
  \<^verbatim>\<open>down()\<close> returns \<open>v - 1\<close> and leaves a counter that reads \<open>v - 1\<close>,
  \<^verbatim>\<open>get()\<close> returns \<open>v\<close> and leaves the counter file as it was; after a decrement
  the counter file is gone exactly when the new value is 0, and otherwise holds the new value.
\<close>

theorem semaphore_contract:
  assumes "stored_counter (FileSemaphore_init path) w = Inr v"
  shows "fst (FileSemaphore_up (FileSemaphore_init path) w) = Inr (v + 1)
       \<and> stored_counter (FileSemaphore_init path)
             (snd (FileSemaphore_up (FileSemaphore_init path) w)) = Inr (v + 1)
       \<and> fst (FileSemaphore_down (FileSemaphore_init path) w) = Inr (v - 1)
       \<and> stored_counter (FileSemaphore_init path)
             (snd (FileSemaphore_down (FileSemaphore_init path) w)) = Inr (v - 1)
       \<and> fs (snd (FileSemaphore_down (FileSemaphore_init path) w)) path =
             (if v - 1 = 0 then None else Some (py_str (v - 1)))
       \<and> fst (FileSemaphore_get (FileSemaphore_init path) w) = Inr v
       \<and> fs (snd (FileSemaphore_get (FileSemaphore_init path) w)) path = fs w path
       \<and> fst (FileSemaphore_get (FileSemaphore_init path) (w\<lparr>fs := (fs w)(path := None)\<rparr>)) = Inr 0"
proof -
  let ?S = "FileSemaphore_init path"
  have d: "lock_file_path ?S \<noteq> sem_file_path ?S" by simp
  have up: "FileSemaphore_up ?S w =
      (Inr (v + 1), w\<lparr>fs := (fs w)(path @ ''.lock'' := None,
          path := (if v + 1 = 0 then None else Some (py_str (v + 1))))\<rparr>)"
    using FileSemaphore_update_ok [OF d assms, of "\<lambda>counter. counter + 1"]
    by (simp add: FileSemaphore_up_def)
  have down: "FileSemaphore_down ?S w =
      (Inr (v - 1), w\<lparr>fs := (fs w)(path @ ''.lock'' := None,
          path := (if v - 1 = 0 then None else Some (py_str (v - 1))))\<rparr>)"
    using FileSemaphore_update_ok [OF d assms, of "\<lambda>counter. counter - 1"]
    by (simp add: FileSemaphore_down_def)
  have get: "FileSemaphore_get ?S w' =
      (stored_counter ?S w', w'\<lparr>fs := (fs w')(path @ ''.lock'' := None)\<rparr>)" for w'
    using FileSemaphore_read_eq [OF d, of w'] by (simp add: FileSemaphore_get_def)
  have c: "stored_counter ?S (w\<lparr>fs := (fs w)(path @ ''.lock'' := None,
          path := (if i = 0 then None else Some (py_str i)))\<rparr>) = Inr i" for i
    by (simp add: stored_counter_fs py_strip_py_str py_str_nonempty py_int_py_str)
  show ?thesis
    by (simp add: up down get assms stored_counter_fs py_strip_py_str py_str_nonempty
        py_int_py_str)
qed

text \<open>The contract of C2 at a counter file holding \<^verbatim>\<open>1\<close>.\<close>

theorem semaphore_contract_witness:
  "stored_counter (FileSemaphore_init ''/w/cnt'')
     \<lparr>fs = [''/w/cnt'' \<mapsto> ''1''], symlinks = {}, mtab = [], outcomes = [], log = []\<rparr> = Inr 1
   \<and> fst (FileSemaphore_up (FileSemaphore_init ''/w/cnt'')
       \<lparr>fs = [''/w/cnt'' \<mapsto> ''1''], symlinks = {}, mtab = [], outcomes = [], log = []\<rparr>) = Inr 2
   \<and> fst (FileSemaphore_down (FileSemaphore_init ''/w/cnt'')
       \<lparr>fs = [''/w/cnt'' \<mapsto> ''1''], symlinks = {}, mtab = [], outcomes = [], log = []\<rparr>) = Inr 0
   \<and> fs (snd (FileSemaphore_down (FileSemaphore_init ''/w/cnt'')
       \<lparr>fs = [''/w/cnt'' \<mapsto> ''1''], symlinks = {}, mtab = [], outcomes = [], log = []\<rparr>))
         ''/w/cnt'' = None"
proof -
  have h: "stored_counter (FileSemaphore_init ''/w/cnt'')
     \<lparr>fs = [''/w/cnt'' \<mapsto> ''1''], symlinks = {}, mtab = [], outcomes = [], log = []\<rparr> = Inr 1"
    by (simp add: stored_counter_def py_strip_def py_isspace_def py_int_def parse_nat_def
        digit_val_def)
  show ?thesis
    using h semaphore_contract [OF h] by simp
qed

text \<open>
  Claim C9 as stated fails: on a counter file holding \<^verbatim>\<open>abc\<close> each of
  \<^verbatim>\<open>get()\<close>, \<^verbatim>\<open>up()\<close> and \<^verbatim>\<open>down()\<close> raises \<^verbatim>\<open>ValueError\<close>.
\<close>

theorem corrupt_counter_counterexample:
  "fst (FileSemaphore_get (FileSemaphore_init ''/w/cnt'')
       \<lparr>fs = [''/w/cnt'' \<mapsto> ''abc''], symlinks = {}, mtab = [], outcomes = [], log = []\<rparr>)
     = Inl ValueError
   \<and> fst (FileSemaphore_up (FileSemaphore_init ''/w/cnt'')
       \<lparr>fs = [''/w/cnt'' \<mapsto> ''abc''], symlinks = {}, mtab = [], outcomes = [], log = []\<rparr>)
     = Inl ValueError
   \<and> fst (FileSemaphore_down (FileSemaphore_init ''/w/cnt'')
       \<lparr>fs = [''/w/cnt'' \<mapsto> ''abc''], symlinks = {}, mtab = [], outcomes = [], log = []\<rparr>)
     = Inl ValueError"
  by (simp add: FileSemaphore_get_def FileSemaphore_read_def FileSemaphore_up_def
      FileSemaphore_down_def FileSemaphore_update_def update_finally_def
      portalocker_Lock_def os_remove_def stored_counter_def py_strip_def py_isspace_def
      py_int_def parse_nat_def digit_val_def FileSemaphore_init_def Let_def)

text \<open>
  Claim C9, amended. For every counter file whose content is empty or consists of whitespace
  only, \<^verbatim>\<open>get()\<close>, \<^verbatim>\<open>up()\<close> and \<^verbatim>\<open>down()\<close> take the stored value as 0 and
  raise nothing: they return 0, 1 and -1.
\<close>

theorem blank_counter_is_zero:
  assumes "fs w path = Some content" and "py_strip content = []"
  shows "fst (FileSemaphore_get (FileSemaphore_init path) w) = Inr 0
       \<and> fst (FileSemaphore_up (FileSemaphore_init path) w) = Inr 1
       \<and> fst (FileSemaphore_down (FileSemaphore_init path) w) = Inr (- 1)"
proof -
  let ?S = "FileSemaphore_init path"
  have d: "lock_file_path ?S \<noteq> sem_file_path ?S" by simp
  have c: "stored_counter ?S w = Inr 0"
    using assms by (simp add: stored_counter_def)
  show ?thesis
    using FileSemaphore_update_ok [OF d c, of "\<lambda>counter. counter + 1"]
      FileSemaphore_update_ok [OF d c, of "\<lambda>counter. counter - 1"]
      FileSemaphore_read_eq [OF d, of w] c
    by (simp add: FileSemaphore_up_def FileSemaphore_down_def FileSemaphore_get_def)
qed

text \<open>The amended C9 at a counter file holding one blank.\<close>

theorem blank_counter_is_zero_witness:
  "fst (FileSemaphore_get (FileSemaphore_init ''/w/cnt'')
       \<lparr>fs = [''/w/cnt'' \<mapsto> '' ''], symlinks = {}, mtab = [], outcomes = [], log = []\<rparr>)
     = Inr 0
   \<and> fst (FileSemaphore_up (FileSemaphore_init ''/w/cnt'')
       \<lparr>fs = [''/w/cnt'' \<mapsto> '' ''], symlinks = {}, mtab = [], outcomes = [], log = []\<rparr>)
     = Inr 1
   \<and> fst (FileSemaphore_down (FileSemaphore_init ''/w/cnt'')
       \<lparr>fs = [''/w/cnt'' \<mapsto> '' ''], symlinks = {}, mtab = [], outcomes = [], log = []\<rparr>)
     = Inr (- 1)"
  using blank_counter_is_zero [of
      "\<lparr>fs = [''/w/cnt'' \<mapsto> '' ''], symlinks = {}, mtab = [], outcomes = [], log = []\<rparr>"
      "''/w/cnt''" "'' ''"]
  by (simp add: py_strip_def py_isspace_def)

text \<open>
  Claim C10. With no counter file, \<^verbatim>\<open>down()\<close> returns -1 and leaves a counter file
  holding \<^verbatim>\<open>-1\<close>; the \<^verbatim>\<open>up()\<close> that follows returns 0, not 1, and it is this
  call, whose result is 0, that removes the file.
\<close>

theorem down_below_zero:
  assumes "fs w path = None"
  shows "fst (FileSemaphore_down (FileSemaphore_init path) w) = Inr (- 1)
       \<and> fs (snd (FileSemaphore_down (FileSemaphore_init path) w)) path = Some ''-1''
       \<and> stored_counter (FileSemaphore_init path)
             (snd (FileSemaphore_down (FileSemaphore_init path) w)) = Inr (- 1)
       \<and> fst (FileSemaphore_up (FileSemaphore_init path)
             (snd (FileSemaphore_down (FileSemaphore_init path) w))) = Inr 0
       \<and> fs (snd (FileSemaphore_up (FileSemaphore_init path)
             (snd (FileSemaphore_down (FileSemaphore_init path) w)))) path = None"
proof -
  let ?S = "FileSemaphore_init path"
  have d: "lock_file_path ?S \<noteq> sem_file_path ?S" by simp
  have c: "stored_counter ?S w = Inr 0"
    using assms by (simp add: stored_counter_def)
  have s: "py_str (- 1) = ''-1''"
    by (simp add: py_str_def digits.simps digit_char_def)
  have down: "FileSemaphore_down ?S w =
      (Inr (- 1), w\<lparr>fs := (fs w)(path @ ''.lock'' := None, path \<mapsto> ''-1'')\<rparr>)"
    using FileSemaphore_update_ok [OF d c, of "\<lambda>counter. counter - 1"] s
    by (simp add: FileSemaphore_down_def)
  let ?w1 = "w\<lparr>fs := (fs w)(path @ ''.lock'' := None, path \<mapsto> ''-1'')\<rparr>"
  have c1: "stored_counter ?S ?w1 = Inr (- 1)"
    using stored_counter_written [of ?w1 ?S "- 1"] s by simp
  show ?thesis
    using FileSemaphore_update_ok [OF d c1, of "\<lambda>counter. counter + 1"] c1
    by (simp add: down FileSemaphore_up_def)
qed

text \<open>C10 on a machine without any file.\<close>

theorem down_below_zero_witness:
  "fst (FileSemaphore_down (FileSemaphore_init ''/w/cnt'')
       \<lparr>fs = Map.empty, symlinks = {}, mtab = [], outcomes = [], log = []\<rparr>) = Inr (- 1)
   \<and> fs (snd (FileSemaphore_down (FileSemaphore_init ''/w/cnt'')
       \<lparr>fs = Map.empty, symlinks = {}, mtab = [], outcomes = [], log = []\<rparr>)) ''/w/cnt''
       = Some ''-1''
   \<and> fst (FileSemaphore_up (FileSemaphore_init ''/w/cnt'')
       (snd (FileSemaphore_down (FileSemaphore_init ''/w/cnt'')
          \<lparr>fs = Map.empty, symlinks = {}, mtab = [], outcomes = [], log = []\<rparr>))) = Inr 0"
  using down_below_zero [of
      "\<lparr>fs = Map.empty, symlinks = {}, mtab = [], outcomes = [], log = []\<rparr>" "''/w/cnt''"]
  by simp

section \<open>Properties: mounts and the mount stack\<close>

lemma next_outcome_frame [simp]:
  "fs (snd (next_outcome w)) = fs w"
  "mtab (snd (next_outcome w)) = mtab w"
  "log (snd (next_outcome w)) = log w"
  "symlinks (snd (next_outcome w)) = symlinks w"
  by (simp_all add: next_outcome_def split: list.splits)

lemma run_cmd_eq:
  "run_cmd c pre eff w =
     (if fst (next_outcome w) \<and> pre (snd (next_outcome w))
      then (Inr (), (eff (snd (next_outcome w)))\<lparr>log := log w @ [(c, True)]\<rparr>)
      else (Inl ProcessExecutionError, (snd (next_outcome w))\<lparr>log := log w @ [(c, False)]\<rparr>))"
  using next_outcome_frame(3) [of w]
  by (cases "next_outcome w") (simp add: run_cmd_def)

lemma run_cmd_cases:
  assumes "run_cmd c pre eff w = (r, w')"
  obtains (ok) "r = Inr ()" "fst (next_outcome w)" "pre (snd (next_outcome w))"
      "w' = (eff (snd (next_outcome w)))\<lparr>log := log w @ [(c, True)]\<rparr>"
  | (fail) "r = Inl ProcessExecutionError"
      "w' = (snd (next_outcome w))\<lparr>log := log w @ [(c, False)]\<rparr>"
  using assms by (auto simp: run_cmd_eq split: if_splits)

lemma Mount_umount_cases:
  assumes "Mount_umount m w = (r, w')"
  obtains (ok) "r = Inr ()" "mount_point m \<in> set (mtab w)"
      "mtab w' = remove1 (mount_point m) (mtab w)"
      "log w' = log w @ [(Cmd_umount (if make_rslave m then [''-R''] else []) (mount_point m), True)]"
      "fs w' = fs w"
  | (fail) "r = Inl ProcessExecutionError" "mtab w' = mtab w"
      "log w' = log w @ [(Cmd_umount (if make_rslave m then [''-R''] else []) (mount_point m), False)]"
      "fs w' = fs w"
  using assms unfolding Mount_umount_def Let_def
  by (elim run_cmd_cases) auto

lemma umount_all_char:
  "MountsManager_umount_all self w = (r, w', self') \<Longrightarrow>
   (r = Inr ()
      \<and> log w' = log w @ map (\<lambda>m. (Cmd_umount (if make_rslave m then [''-R''] else [])
                                    (mount_point m), True)) (rev (mounts self))
      \<and> mounts self' = [])
   \<or> (r = Inl ProcessExecutionError
      \<and> (\<exists>ms1 m ms2. rev (mounts self) = ms1 @ m # ms2
           \<and> log w' = log w
                @ map (\<lambda>m. (Cmd_umount (if make_rslave m then [''-R''] else [])
                                (mount_point m), True)) ms1
                @ [(Cmd_umount (if make_rslave m then [''-R''] else []) (mount_point m), False)]
           \<and> mounts self' = rev ms2))"
proof (induction self w arbitrary: r w' self' rule: MountsManager_umount_all.induct)
  case (1 self w)
  let ?c = "\<lambda>m. Cmd_umount (if make_rslave m then [''-R''] else []) (mount_point m)"
  show ?case
  proof (cases "mounts self = []")
    case True
    with "1.prems" show ?thesis
      by (simp add: MountsManager_umount_all.simps)
  next
    case False
    let ?m = "last (mounts self)"
    let ?self1 = "self\<lparr>mounts := butlast (mounts self)\<rparr>"
    have rv: "rev (mounts self) = ?m # rev (butlast (mounts self))"
      using False by (metis append_butlast_last_id rev.simps(2) rev_rev_ident rev_swap
          rev_append singleton_rev_conv append_Cons append_Nil)
    obtain r1 w1 where u: "Mount_umount ?m w = (r1, w1)" by (cases "Mount_umount ?m w")
    from u show ?thesis
    proof (cases rule: Mount_umount_cases)
      case ok
      with "1.prems" False u
      have rec: "MountsManager_umount_all ?self1 w1 = (r, w', self')"
        by (simp add: MountsManager_umount_all.simps [of self] Let_def)
      have "(r = Inr ()
          \<and> log w' = log w1 @ map (\<lambda>m. (?c m, True)) (rev (mounts ?self1))
          \<and> mounts self' = [])
        \<or> (r = Inl ProcessExecutionError
          \<and> (\<exists>ms1 m ms2. rev (mounts ?self1) = ms1 @ m # ms2
               \<and> log w' = log w1 @ map (\<lambda>m. (?c m, True)) ms1 @ [(?c m, False)]
               \<and> mounts self' = rev ms2))"
        using "1.IH" [OF False refl refl u [symmetric] _ rec] ok(1) by simp
      then show ?thesis
      proof
        assume "r = Inr ()
          \<and> log w' = log w1 @ map (\<lambda>m. (?c m, True)) (rev (mounts ?self1))
          \<and> mounts self' = []"
        with ok show ?thesis by (simp add: rv)
      next
        assume "r = Inl ProcessExecutionError
          \<and> (\<exists>ms1 m ms2. rev (mounts ?self1) = ms1 @ m # ms2
               \<and> log w' = log w1 @ map (\<lambda>m. (?c m, True)) ms1 @ [(?c m, False)]
               \<and> mounts self' = rev ms2)"
        then obtain ms1 m ms2 where e: "r = Inl ProcessExecutionError"
          "rev (butlast (mounts self)) = ms1 @ m # ms2"
          "log w' = log w1 @ map (\<lambda>m. (?c m, True)) ms1 @ [(?c m, False)]"
          "mounts self' = rev ms2" by auto
        have "rev (mounts self) = (?m # ms1) @ m # ms2" using rv e(2) by simp
        moreover have "log w' = log w @ map (\<lambda>m. (?c m, True)) (?m # ms1) @ [(?c m, False)]"
          using e(3) ok(4) by simp
        ultimately show ?thesis using e(1) e(4) by blast
      qed
    next
      case fail
      with "1.prems" False u
      have "r = Inl ProcessExecutionError" "w' = w1" "self' = ?self1"
        by (simp_all add: MountsManager_umount_all.simps [of self] Let_def)
      moreover have "rev (mounts self) = [] @ ?m # rev (butlast (mounts self))"
        using rv by simp
      ultimately show ?thesis using fail(3)
        by (intro disjI2 conjI exI [of _ "[]"] exI [of _ ?m]
            exI [of _ "rev (butlast (mounts self))"]) simp_all
    qed
  qed
qed





lemma Mount_mount_cases:
  assumes "Mount_mount m w = (r, w')"
  obtains (ok) "r = Inr ()" "mtab w' = mount_point m # mtab w" "fs w' = fs w"
  | (fail) "r = Inl ProcessExecutionError" "mtab w' = mtab w" "fs w' = fs w"
      "\<not> fst (next_outcome w)"
  | (fail_rslave) "r = Inl ProcessExecutionError" "mtab w' = mount_point m # mtab w"
      "fs w' = fs w" "make_rslave m"
  using assms unfolding Mount_mount_def
  by (auto simp: run_cmd_eq split: if_splits)

lemma umount_all_mtab:
  "MountsManager_umount_all self w = (Inr (), w', self') \<Longrightarrow>
   mset (mtab w') + mset (map mount_point (mounts self)) = mset (mtab w)"
proof (induction self w arbitrary: w' self' rule: MountsManager_umount_all.induct)
  case (1 self w)
  show ?case
  proof (cases "mounts self = []")
    case True
    with "1.prems" show ?thesis by (simp add: MountsManager_umount_all.simps)
  next
    case False
    let ?m = "last (mounts self)"
    let ?self1 = "self\<lparr>mounts := butlast (mounts self)\<rparr>"
    obtain r1 w1 where u: "Mount_umount ?m w = (r1, w1)" by (cases "Mount_umount ?m w")
    from u show ?thesis
    proof (cases rule: Mount_umount_cases)
      case ok
      with "1.prems" False u
      have rec: "MountsManager_umount_all ?self1 w1 = (Inr (), w', self')"
        by (simp add: MountsManager_umount_all.simps [of self] Let_def)
      have ih: "mset (mtab w') + mset (map mount_point (butlast (mounts self))) = mset (mtab w1)"
        using "1.IH" [OF False refl refl u [symmetric] _ rec] ok(1) by simp
      have "mset (map mount_point (mounts self)) =
            mset (map mount_point (butlast (mounts self))) + {#mount_point ?m#}"
      proof -
        have "mounts self = butlast (mounts self) @ [?m]" using False by simp
        then have "map mount_point (mounts self) =
                   map mount_point (butlast (mounts self)) @ [mount_point ?m]"
          by (metis list.simps(8,9) map_append)
        then show ?thesis by simp
      qed
      moreover have "mset (mtab w1) + {#mount_point ?m#} = mset (mtab w)"
        using ok(2,3) by simp
      ultimately show ?thesis using ih by (simp add: ac_simps)
    next
      case fail
      with "1.prems" False u show ?thesis
        by (simp add: MountsManager_umount_all.simps [of self] Let_def)
    qed
  qed
qed

text \<open>
  Claim C4, amended. As long as the commands succeed, a record on the stack is mounted and
  taking it off unmounts it: if every record of the stack has its mount in the mount table,
  then after an \<^verbatim>\<open>add\<close> that returns normally the new record is at the end of the
  stack, its mount point is mounted and every record of the stack still has its mount; and
  after an \<^verbatim>\<open>umount_all()\<close> that returns normally the stack is empty and the mount
  table has lost exactly the mounts of the records that were on it.
\<close>

theorem mount_stack_when_commands_succeed:
  assumes "mset (map mount_point (mounts self)) \<subseteq># mset (mtab w)"
  shows "(MountsManager_add self m w = (Inr (), w1, self1) \<longrightarrow>
            mounts self1 = mounts self @ [m]
          \<and> mtab w1 = mount_point m # mtab w
          \<and> mset (map mount_point (mounts self1)) \<subseteq># mset (mtab w1))
       \<and> (MountsManager_umount_all self w = (Inr (), w2, self2) \<longrightarrow>
            mounts self2 = []
          \<and> mset (mtab w2) + mset (map mount_point (mounts self)) = mset (mtab w))"
proof (intro conjI impI)
  assume a: "MountsManager_add self m w = (Inr (), w1, self1)"
  obtain r w' where mm: "Mount_mount m w = (r, w')" by (cases "Mount_mount m w")
  with a have e: "r = Inr ()" "w1 = w'" "self1 = self\<lparr>mounts := mounts self @ [m]\<rparr>"
    by (simp_all add: MountsManager_add_def Let_def)
  from mm e(1) have t: "mtab w' = mount_point m # mtab w"
    by (cases rule: Mount_mount_cases) simp_all
  show "mounts self1 = mounts self @ [m]" using e by simp
  show "mtab w1 = mount_point m # mtab w" using e t by simp
  show "mset (map mount_point (mounts self1)) \<subseteq># mset (mtab w1)"
    using assms e t by simp
next
  assume u: "MountsManager_umount_all self w = (Inr (), w2, self2)"
  from umount_all_char [OF u] show "mounts self2 = []" by simp
  from umount_all_mtab [OF u]
  show "mset (mtab w2) + mset (map mount_point (mounts self)) = mset (mtab w)" .
qed

text \<open>
  Claim C4 as stated fails. When the \<^verbatim>\<open>mount\<close> command fails during \<^verbatim>\<open>add\<close>,
  the record is on the stack and its mount point is not mounted; when the \<^verbatim>\<open>umount\<close>
  command fails during \<^verbatim>\<open>umount_all()\<close>, the record is off the stack and its mount
  point is still mounted.
\<close>

theorem mount_stack_invariant_counterexample:
  "MountsManager_add \<lparr>base_dir = ''/mnt'', mounts = []\<rparr>
      (Mount_init ''a'' ''/mnt/a'' [] False)
      \<lparr>fs = Map.empty, symlinks = {}, mtab = [], outcomes = [False], log = []\<rparr>
   = (Inl ProcessExecutionError,
      \<lparr>fs = Map.empty, symlinks = {}, mtab = [], outcomes = [],
       log = [(Cmd_mount [] ''a'' ''/mnt/a'', False)]\<rparr>,
      \<lparr>base_dir = ''/mnt'', mounts = [Mount_init ''a'' ''/mnt/a'' [] False]\<rparr>)
   \<and> MountsManager_umount_all
      \<lparr>base_dir = ''/mnt'', mounts = [Mount_init ''a'' ''/mnt/a'' [] False]\<rparr>
      \<lparr>fs = Map.empty, symlinks = {}, mtab = [''/mnt/a''], outcomes = [False], log = []\<rparr>
   = (Inl ProcessExecutionError,
      \<lparr>fs = Map.empty, symlinks = {}, mtab = [''/mnt/a''], outcomes = [],
       log = [(Cmd_umount [] ''/mnt/a'', False)]\<rparr>,
      \<lparr>base_dir = ''/mnt'', mounts = []\<rparr>)"
  by (simp add: MountsManager_add_def Mount_mount_def MountsManager_umount_all.simps
      Mount_umount_def Mount_init_def run_cmd_def next_outcome_def Let_def)

text \<open>The amended C4 on a stack holding one mounted record.\<close>

theorem mount_stack_when_commands_succeed_witness:
  "mset (map mount_point [Mount_init ''a'' ''/mnt/a'' [] False]) \<subseteq># mset [''/mnt/a'']
   \<and> MountsManager_add
       \<lparr>base_dir = ''/mnt'', mounts = [Mount_init ''a'' ''/mnt/a'' [] False]\<rparr>
       (Mount_init ''b'' ''/mnt/b'' [] True)
       \<lparr>fs = Map.empty, symlinks = {}, mtab = [''/mnt/a''], outcomes = [], log = []\<rparr>
     = (Inr (),
        \<lparr>fs = Map.empty, symlinks = {}, mtab = [''/mnt/b'', ''/mnt/a''], outcomes = [],
         log = [(Cmd_mount [] ''b'' ''/mnt/b'', True), (Cmd_make_rslave ''/mnt/b'', True)]\<rparr>,
        \<lparr>base_dir = ''/mnt'',
         mounts = [Mount_init ''a'' ''/mnt/a'' [] False, Mount_init ''b'' ''/mnt/b'' [] True]\<rparr>)
   \<and> mset (map mount_point
         [Mount_init ''a'' ''/mnt/a'' [] False, Mount_init ''b'' ''/mnt/b'' [] True])
       \<subseteq># mset [''/mnt/b'', ''/mnt/a'']
   \<and> MountsManager_umount_all
       \<lparr>base_dir = ''/mnt'', mounts = [Mount_init ''a'' ''/mnt/a'' [] False]\<rparr>
       \<lparr>fs = Map.empty, symlinks = {}, mtab = [''/mnt/a''], outcomes = [], log = []\<rparr>
     = (Inr (),
        \<lparr>fs = Map.empty, symlinks = {}, mtab = [], outcomes = [],
         log = [(Cmd_umount [] ''/mnt/a'', True)]\<rparr>,
        \<lparr>base_dir = ''/mnt'', mounts = []\<rparr>)"
proof -
  let ?A = "Mount_init ''a'' ''/mnt/a'' [] False"
  let ?B = "Mount_init ''b'' ''/mnt/b'' [] True"
  let ?S = "\<lparr>base_dir = ''/mnt'', mounts = [?A]\<rparr>"
  let ?W = "\<lparr>fs = Map.empty, symlinks = {}, mtab = [''/mnt/a''], outcomes = [], log = []\<rparr>"
  have h: "mset (map mount_point (mounts ?S)) \<subseteq># mset (mtab ?W)"
    by (simp add: Mount_init_def)
  have a: "MountsManager_add ?S ?B ?W
     = (Inr (),
        \<lparr>fs = Map.empty, symlinks = {}, mtab = [''/mnt/b'', ''/mnt/a''], outcomes = [],
         log = [(Cmd_mount [] ''b'' ''/mnt/b'', True), (Cmd_make_rslave ''/mnt/b'', True)]\<rparr>,
        \<lparr>base_dir = ''/mnt'', mounts = [?A, ?B]\<rparr>)"
    by (simp add: MountsManager_add_def Mount_mount_def Mount_init_def run_cmd_def
        next_outcome_def Let_def)
  have u: "MountsManager_umount_all ?S ?W
     = (Inr (),
        \<lparr>fs = Map.empty, symlinks = {}, mtab = [], outcomes = [],
         log = [(Cmd_umount [] ''/mnt/a'', True)]\<rparr>,
        \<lparr>base_dir = ''/mnt'', mounts = []\<rparr>)"
    by (simp add: MountsManager_umount_all.simps Mount_umount_def Mount_init_def run_cmd_def
        next_outcome_def Let_def)
  from mount_stack_when_commands_succeed [OF h, of ?B] a u h
  show ?thesis by (simp add: Mount_init_def)
qed

lemma FileInstaller_copy_eq:
  "FileInstaller_copy self rel w =
     (if fst (next_outcome w) \<and> fs w (make_source_path self rel) \<noteq> None
           \<and> make_source_path self rel \<noteq> make_target_path self rel
      then (Inr (make_target_path self rel),
            (snd (next_outcome w))
              \<lparr>fs := (fs w)(make_target_path self rel := fs w (make_source_path self rel)),
               log := log w @ [(Cmd_cp (make_source_path self rel) (make_target_path self rel),
                                True)]\<rparr>,
            self\<lparr>files := files self @ [rel]\<rparr>)
      else (Inl ProcessExecutionError,
            (snd (next_outcome w))
              \<lparr>log := log w @ [(Cmd_cp (make_source_path self rel) (make_target_path self rel),
                                False)]\<rparr>,
            self))"
  by (simp add: FileInstaller_copy_def run_cmd_eq Let_def)

lemma next_outcome_fs_upd [simp]:
  "fst (next_outcome (w\<lparr>fs := F\<rparr>)) = fst (next_outcome w)"
  by (simp add: next_outcome_def split: list.splits)

text \<open>
  Claim C8 as stated fails: with a foreign \<^verbatim>\<open>/work/gentoo/etc/resolv.conf\<close> in place,
  \<^verbatim>\<open>copy()\<close> returns normally and the target holds the host's content.
\<close>

theorem copy_overwrites_counterexample:
  "fst (FileTempInst_copy (FileTempInst_init ''/work/gentoo'' ''/etc/resolv.conf'')
      \<lparr>fs = [''/etc/resolv.conf'' \<mapsto> ''nameserver 10.0.0.1'',
              ''/work/gentoo/etc/resolv.conf'' \<mapsto> ''foreign''],
       symlinks = {}, mtab = [], outcomes = [], log = []\<rparr>) = Inr ()
   \<and> fs (fst (snd (FileTempInst_copy (FileTempInst_init ''/work/gentoo'' ''/etc/resolv.conf'')
      \<lparr>fs = [''/etc/resolv.conf'' \<mapsto> ''nameserver 10.0.0.1'',
              ''/work/gentoo/etc/resolv.conf'' \<mapsto> ''foreign''],
       symlinks = {}, mtab = [], outcomes = [], log = []\<rparr>)))
       ''/work/gentoo/etc/resolv.conf'' = Some ''nameserver 10.0.0.1''"
  by (simp add: FileTempInst_copy_def FileTempInst_init_def FileInstaller_init_def
      FileInstaller_copy_eq make_source_path_def make_target_path_def os_path_join_def
      py_lstrip_def next_outcome_def)

text \<open>
  Claim C8, amended. \<^verbatim>\<open>copy()\<close> runs \<^verbatim>\<open>cp --dereference\<close> from the host path
  to the target path whether or not the target exists: the presence or content of the target
  has no influence on the outcome; when the command succeeds the target holds the content of
  the host's file and the path is recorded for \<^verbatim>\<open>remove()\<close>; when it fails the target
  and the record are as before.
\<close>

theorem copy_overwrites_target:
  assumes "make_source_path (inst self) (file_path self)
             \<noteq> make_target_path (inst self) (file_path self)"
  shows "fst (FileTempInst_copy self
                (w\<lparr>fs := (fs w)(make_target_path (inst self) (file_path self) := x)\<rparr>))
           = fst (FileTempInst_copy self w)
       \<and> fs (fst (snd (FileTempInst_copy self w)))
            (make_target_path (inst self) (file_path self))
           = (if fst (FileTempInst_copy self w) = Inr ()
              then fs w (make_source_path (inst self) (file_path self))
              else fs w (make_target_path (inst self) (file_path self)))
       \<and> files (inst (snd (snd (FileTempInst_copy self w))))
           = (if fst (FileTempInst_copy self w) = Inr ()
              then files (inst self) @ [file_path self]
              else files (inst self))"
  using assms
  by (simp add: FileTempInst_copy_def FileInstaller_copy_eq)

text \<open>The amended C8 for \<^verbatim>\<open>/etc/resolv.conf\<close> and the chroot \<^verbatim>\<open>/work/gentoo\<close>.\<close>

theorem copy_overwrites_target_witness:
  "make_source_path (inst (FileTempInst_init ''/work/gentoo'' ''/etc/resolv.conf''))
       ''/etc/resolv.conf'' = ''/etc/resolv.conf''
   \<and> make_target_path (inst (FileTempInst_init ''/work/gentoo'' ''/etc/resolv.conf''))
       ''/etc/resolv.conf'' = ''/work/gentoo/etc/resolv.conf''
   \<and> fst (FileTempInst_copy (FileTempInst_init ''/work/gentoo'' ''/etc/resolv.conf'')
      \<lparr>fs = [''/etc/resolv.conf'' \<mapsto> ''nameserver 10.0.0.1''],
       symlinks = {}, mtab = [], outcomes = [], log = []\<rparr>) = Inr ()
   \<and> fs (fst (snd (FileTempInst_copy (FileTempInst_init ''/work/gentoo'' ''/etc/resolv.conf'')
      \<lparr>fs = [''/etc/resolv.conf'' \<mapsto> ''nameserver 10.0.0.1''],
       symlinks = {}, mtab = [], outcomes = [], log = []\<rparr>)))
       ''/work/gentoo/etc/resolv.conf'' = Some ''nameserver 10.0.0.1''
   \<and> files (inst (snd (snd (FileTempInst_copy
        (FileTempInst_init ''/work/gentoo'' ''/etc/resolv.conf'')
      \<lparr>fs = [''/etc/resolv.conf'' \<mapsto> ''nameserver 10.0.0.1''],
       symlinks = {}, mtab = [], outcomes = [], log = []\<rparr>)))) = [''/etc/resolv.conf'']"
proof -
  let ?T = "FileTempInst_init ''/work/gentoo'' ''/etc/resolv.conf''"
  let ?W = "\<lparr>fs = [''/etc/resolv.conf'' \<mapsto> ''nameserver 10.0.0.1''],
       symlinks = {}, mtab = [], outcomes = [], log = []\<rparr>"
  have p: "make_source_path (inst ?T) (file_path ?T) = ''/etc/resolv.conf''"
    "make_target_path (inst ?T) (file_path ?T) = ''/work/gentoo/etc/resolv.conf''"
    by (simp_all add: FileTempInst_init_def FileInstaller_init_def make_source_path_def
        make_target_path_def os_path_join_def py_lstrip_def)
  have h: "make_source_path (inst ?T) (file_path ?T) \<noteq> make_target_path (inst ?T) (file_path ?T)"
    by (simp add: p)
  have ok: "fst (FileTempInst_copy ?T ?W) = Inr ()"
    by (simp add: FileTempInst_copy_def FileInstaller_copy_eq p next_outcome_def)
  have f: "file_path ?T = ''/etc/resolv.conf''" "files (inst ?T) = []"
    by (simp_all add: FileTempInst_init_def FileInstaller_init_def)
  from copy_overwrites_target [OF h, of ?W] p ok f show ?thesis by simp
qed

section \<open>Properties: setting up and entering the chroot\<close>

lemma next_outcome_upd [simp]:
  "fst (next_outcome (w\<lparr>log := l\<rparr>)) = fst (next_outcome w)"
  "fst (next_outcome (w\<lparr>mtab := t\<rparr>)) = fst (next_outcome w)"
  "outcomes (snd (next_outcome (w\<lparr>log := l\<rparr>))) = outcomes (snd (next_outcome w))"
  "outcomes (snd (next_outcome (w\<lparr>mtab := t\<rparr>))) = outcomes (snd (next_outcome w))"
  "outcomes (snd (next_outcome (w\<lparr>fs := F\<rparr>))) = outcomes (snd (next_outcome w))"
  by (simp_all add: next_outcome_def split: list.splits)

lemma Mount_mount_plain:
  "\<not> make_rslave m \<Longrightarrow>
   Mount_mount m w =
     (if fst (next_outcome w)
      then (Inr (), (snd (next_outcome w))
              \<lparr>mtab := mount_point m # mtab w,
               log := log w @ [(Cmd_mount (opts m) (device m) (mount_point m), True)]\<rparr>)
      else (Inl ProcessExecutionError, (snd (next_outcome w))
              \<lparr>log := log w @ [(Cmd_mount (opts m) (device m) (mount_point m), False)]\<rparr>))"
  by (simp add: Mount_mount_def run_cmd_eq)

text \<open>
  Claim C7, amended. The path tested is \<^verbatim>\<open>/dev/shm\<close> of the calling process, not a
  path under the chroot directory. If that path is a symbolic link, \<^verbatim>\<open>mount_all\<close>
  raises \<^verbatim>\<open>GeniException\<close> right after the tmpfs mount at \<^verbatim>\<open>/tmp\<close> (or the error
  of that mount, if it failed), and the tmpfs mount is the only \<^verbatim>\<open>mount\<close> command it
  has run.
\<close>

theorem dev_shm_symlink_stops_setup:
  assumes "''/dev/shm'' \<in> symlinks w"
  shows "fst (mount_all (w, self)) =
           Inl (if fst (next_outcome w) then GeniException ''/dev/shm is not a directory''
                else ProcessExecutionError)
       \<and> log (fst (snd (mount_all (w, self)))) =
           log w @ [(Cmd_mount [''--types'', ''tmpfs''] ''geni_tmpfs''
                       (os_path_join (base_dir (mounts_mgr self)) ''tmp''),
                     fst (next_outcome w))]"
  using assms
  by (simp add: mount_all_def and_then_def mounts_mgr_mount_def MountsManager_mount_def
      MountsManager_add_def Mount_mount_plain Mount_init_def py_lstrip_def Let_def)

lemmas eval_defs =
  mount_all_def and_then_def mounts_mgr_mount_def MountsManager_mount_def
  MountsManager_add_def Mount_mount_def Mount_umount_def Mount_init_def py_lstrip_def
  os_path_join_def run_cmd_def next_outcome_def Let_def

text \<open>
  Claim C7 as stated fails: with \<^verbatim>\<open>/work/gentoo/dev/shm\<close> a symbolic link (and
  \<^verbatim>\<open>/dev/shm\<close> of the host none), \<^verbatim>\<open>mount_all\<close> returns normally with all four
  mounts in place.
\<close>

theorem chroot_dev_shm_counterexample:
  "fst (mount_all
     (\<lparr>fs = Map.empty, symlinks = {''/work/gentoo/dev/shm''}, mtab = [], outcomes = [],
       log = []\<rparr>,
      \<lparr>chroot_dir = ''/work/gentoo'',
        mounts_mgr = \<lparr>base_dir = ''/work/gentoo'', mounts = []\<rparr>,
        semaphore = FileSemaphore_init
          ''/work/._geni_chroot_gentoo_ade62648f08366154e9a467f73803b839d1d1603_cnt'',
        resolv_conf = FileTempInst_init ''/work/gentoo'' ''/etc/resolv.conf'',
        master = False\<rparr>)) = Inr ()
   \<and> mtab (fst (snd (mount_all
     (\<lparr>fs = Map.empty, symlinks = {''/work/gentoo/dev/shm''}, mtab = [], outcomes = [],
       log = []\<rparr>,
      \<lparr>chroot_dir = ''/work/gentoo'',
        mounts_mgr = \<lparr>base_dir = ''/work/gentoo'', mounts = []\<rparr>,
        semaphore = FileSemaphore_init
          ''/work/._geni_chroot_gentoo_ade62648f08366154e9a467f73803b839d1d1603_cnt'',
        resolv_conf = FileTempInst_init ''/work/gentoo'' ''/etc/resolv.conf'',
        master = False\<rparr>))))
     = [''/work/gentoo/dev'', ''/work/gentoo/sys'', ''/work/gentoo/proc'', ''/work/gentoo/tmp'']"
  by (simp add: eval_defs)

text \<open>The amended C7 on a host whose \<^verbatim>\<open>/dev/shm\<close> is a symbolic link.\<close>

theorem dev_shm_symlink_stops_setup_witness:
  "fst (mount_all
     (\<lparr>fs = Map.empty, symlinks = {''/dev/shm''}, mtab = [], outcomes = [], log = []\<rparr>,
      \<lparr>chroot_dir = ''/work/gentoo'',
        mounts_mgr = \<lparr>base_dir = ''/work/gentoo'', mounts = []\<rparr>,
        semaphore = FileSemaphore_init
          ''/work/._geni_chroot_gentoo_ade62648f08366154e9a467f73803b839d1d1603_cnt'',
        resolv_conf = FileTempInst_init ''/work/gentoo'' ''/etc/resolv.conf'',
        master = False\<rparr>)) = Inl (GeniException ''/dev/shm is not a directory'')
   \<and> log (fst (snd (mount_all
     (\<lparr>fs = Map.empty, symlinks = {''/dev/shm''}, mtab = [], outcomes = [], log = []\<rparr>,
      \<lparr>chroot_dir = ''/work/gentoo'',
        mounts_mgr = \<lparr>base_dir = ''/work/gentoo'', mounts = []\<rparr>,
        semaphore = FileSemaphore_init
          ''/work/._geni_chroot_gentoo_ade62648f08366154e9a467f73803b839d1d1603_cnt'',
        resolv_conf = FileTempInst_init ''/work/gentoo'' ''/etc/resolv.conf'',
        master = False\<rparr>))))
     = [(Cmd_mount [''--types'', ''tmpfs''] ''geni_tmpfs'' ''/work/gentoo/tmp'', True)]"
  using dev_shm_symlink_stops_setup [of
      "\<lparr>fs = Map.empty, symlinks = {''/dev/shm''}, mtab = [], outcomes = [], log = []\<rparr>"
      "\<lparr>chroot_dir = ''/work/gentoo'',
        mounts_mgr = \<lparr>base_dir = ''/work/gentoo'', mounts = []\<rparr>,
        semaphore = FileSemaphore_init
          ''/work/._geni_chroot_gentoo_ade62648f08366154e9a467f73803b839d1d1603_cnt'',
        resolv_conf = FileTempInst_init ''/work/gentoo'' ''/etc/resolv.conf'',
        master = False\<rparr>"]
  by (simp add: next_outcome_def os_path_join_def)

lemma wait_drained_done:
  assumes "lock_file_path sem \<noteq> sem_file_path sem"
    and "stored_counter sem w = Inr v" and "\<not> v > 0"
  shows "wait_drained sem w = Some (Inr (), w\<lparr>fs := (fs w)(lock_file_path sem := None)\<rparr>)"
  using assms
  by (subst wait_drained.simps) (simp add: FileSemaphore_get_def FileSemaphore_read_eq)

lemmas sem_eval_defs =
  FileSemaphore_up_def FileSemaphore_down_def FileSemaphore_get_def FileSemaphore_read_def
  FileSemaphore_update_def update_finally_def portalocker_Lock_def os_remove_def
  stored_counter_def py_strip_def py_isspace_def py_int_def py_str_def parse_nat_def
  digit_val_def digit_char_def digits.simps FileSemaphore_init_def

lemmas chroot_eval_defs =
  Chroot_enter_def prepare_def prepare_rest_def clean_up_def teardown_def umount_all_def
  resolv_conf_copy_def resolv_conf_ensure_is_copied_def resolv_conf_remove_def
  ensure_all_mounted_def FileTempInst_copy_def FileTempInst_ensure_is_copied_def
  FileTempInst_remove_def FileTempInst_init_def FileInstaller_init_def FileInstaller_copy_def
  FileInstaller_ensure_is_copied_def FileInstaller_remove_def
  make_source_path_def make_target_path_def
  ExceptionEater_init_def ExceptionEater_eat_def ExceptionEater_raise_first_if_any_def

text \<open>
  Claim C6 at a failing input. The counter file holds 1 and the resolver config is in the
  chroot tree, but nothing is mounted under \<^verbatim>\<open>/work/gentoo\<close>; \<^verbatim>\<open>/tmp\<close>,
  \<^verbatim>\<open>/proc\<close>, \<^verbatim>\<open>/sys\<close> and \<^verbatim>\<open>/dev\<close> of the host are mount points. The second
  entrant is not master, mounts and copies nothing, and gets its executor:
  \<^verbatim>\<open>ensure_all_mounted\<close> has asked \<^verbatim>\<open>mountpoint\<close> about the host's paths.
\<close>

theorem peer_checks_host_mount_points:
  "Chroot_enter (\<lparr>fs = [''/work/._geni_chroot_gentoo_ade62648f08366154e9a467f73803b839d1d1603_cnt'' \<mapsto> ''1'',
              ''/etc/resolv.conf'' \<mapsto> ''nameserver 10.0.0.1'',
              ''/work/gentoo/etc/resolv.conf'' \<mapsto> ''nameserver 10.0.0.1''],
        symlinks = {}, mtab = [''/dev'', ''/sys'', ''/proc'', ''/tmp''], outcomes = [],
        log = []\<rparr>, \<lparr>chroot_dir = ''/work/gentoo'',
        mounts_mgr = \<lparr>base_dir = ''/work/gentoo'', mounts = []\<rparr>,
        semaphore = FileSemaphore_init
          ''/work/._geni_chroot_gentoo_ade62648f08366154e9a467f73803b839d1d1603_cnt'',
        resolv_conf = FileTempInst_init ''/work/gentoo'' ''/etc/resolv.conf'',
        master = False\<rparr>) \<noteq> None
   \<and> fst (the (Chroot_enter (\<lparr>fs = [''/work/._geni_chroot_gentoo_ade62648f08366154e9a467f73803b839d1d1603_cnt'' \<mapsto> ''1'',
              ''/etc/resolv.conf'' \<mapsto> ''nameserver 10.0.0.1'',
              ''/work/gentoo/etc/resolv.conf'' \<mapsto> ''nameserver 10.0.0.1''],
        symlinks = {}, mtab = [''/dev'', ''/sys'', ''/proc'', ''/tmp''], outcomes = [],
        log = []\<rparr>, \<lparr>chroot_dir = ''/work/gentoo'',
        mounts_mgr = \<lparr>base_dir = ''/work/gentoo'', mounts = []\<rparr>,
        semaphore = FileSemaphore_init
          ''/work/._geni_chroot_gentoo_ade62648f08366154e9a467f73803b839d1d1603_cnt'',
        resolv_conf = FileTempInst_init ''/work/gentoo'' ''/etc/resolv.conf'',
        master = False\<rparr>))) = Inr (ChrootExec ''/work/gentoo'')
   \<and> \<not> master (snd (snd (the (Chroot_enter (\<lparr>fs = [''/work/._geni_chroot_gentoo_ade62648f08366154e9a467f73803b839d1d1603_cnt'' \<mapsto> ''1'',
              ''/etc/resolv.conf'' \<mapsto> ''nameserver 10.0.0.1'',
              ''/work/gentoo/etc/resolv.conf'' \<mapsto> ''nameserver 10.0.0.1''],
        symlinks = {}, mtab = [''/dev'', ''/sys'', ''/proc'', ''/tmp''], outcomes = [],
        log = []\<rparr>, \<lparr>chroot_dir = ''/work/gentoo'',
        mounts_mgr = \<lparr>base_dir = ''/work/gentoo'', mounts = []\<rparr>,
        semaphore = FileSemaphore_init
          ''/work/._geni_chroot_gentoo_ade62648f08366154e9a467f73803b839d1d1603_cnt'',
        resolv_conf = FileTempInst_init ''/work/gentoo'' ''/etc/resolv.conf'',
        master = False\<rparr>)))))
   \<and> mtab (fst (snd (the (Chroot_enter (\<lparr>fs = [''/work/._geni_chroot_gentoo_ade62648f08366154e9a467f73803b839d1d1603_cnt'' \<mapsto> ''1'',
              ''/etc/resolv.conf'' \<mapsto> ''nameserver 10.0.0.1'',
              ''/work/gentoo/etc/resolv.conf'' \<mapsto> ''nameserver 10.0.0.1''],
        symlinks = {}, mtab = [''/dev'', ''/sys'', ''/proc'', ''/tmp''], outcomes = [],
        log = []\<rparr>, \<lparr>chroot_dir = ''/work/gentoo'',
        mounts_mgr = \<lparr>base_dir = ''/work/gentoo'', mounts = []\<rparr>,
        semaphore = FileSemaphore_init
          ''/work/._geni_chroot_gentoo_ade62648f08366154e9a467f73803b839d1d1603_cnt'',
        resolv_conf = FileTempInst_init ''/work/gentoo'' ''/etc/resolv.conf'',
        master = False\<rparr>))))) = [''/dev'', ''/sys'', ''/proc'', ''/tmp'']
   \<and> log (fst (snd (the (Chroot_enter (\<lparr>fs = [''/work/._geni_chroot_gentoo_ade62648f08366154e9a467f73803b839d1d1603_cnt'' \<mapsto> ''1'',
              ''/etc/resolv.conf'' \<mapsto> ''nameserver 10.0.0.1'',
              ''/work/gentoo/etc/resolv.conf'' \<mapsto> ''nameserver 10.0.0.1''],
        symlinks = {}, mtab = [''/dev'', ''/sys'', ''/proc'', ''/tmp''], outcomes = [],
        log = []\<rparr>, \<lparr>chroot_dir = ''/work/gentoo'',
        mounts_mgr = \<lparr>base_dir = ''/work/gentoo'', mounts = []\<rparr>,
        semaphore = FileSemaphore_init
          ''/work/._geni_chroot_gentoo_ade62648f08366154e9a467f73803b839d1d1603_cnt'',
        resolv_conf = FileTempInst_init ''/work/gentoo'' ''/etc/resolv.conf'',
        master = False\<rparr>))))) =
       [(Cmd_diff ''/etc/resolv.conf'' ''/work/gentoo/etc/resolv.conf'', True),
        (Cmd_mountpoint ''/tmp'', True), (Cmd_mountpoint ''/proc'', True),
        (Cmd_mountpoint ''/sys'', True), (Cmd_mountpoint ''/dev'', True)]"
  by (simp add: chroot_eval_defs sem_eval_defs eval_defs)

text \<open>
  Claim C3 at a failing input. A first entrant copies the resolver config and mounts the tmpfs
  at \<^verbatim>\<open>/work/gentoo/tmp\<close>; the \<^verbatim>\<open>mount\<close> command for \<^verbatim>\<open>/work/gentoo/proc\<close>
  fails. \<^verbatim>\<open>clean_up\<close> runs and the counter file is gone again, but \<^verbatim>\<open>umount_all\<close>
  starts with the record of the mount that failed, whose \<^verbatim>\<open>umount\<close> fails as well, and
  stops there: when the error leaves \<^verbatim>\<open>__enter__\<close> the tmpfs is still mounted.
\<close>

theorem failed_mount_leaks_earlier_mount:
  "Chroot_enter (\<lparr>fs = [''/etc/resolv.conf'' \<mapsto> ''nameserver 10.0.0.1''],
        symlinks = {}, mtab = [], outcomes = [True, True, False], log = []\<rparr>, \<lparr>chroot_dir = ''/work/gentoo'',
        mounts_mgr = \<lparr>base_dir = ''/work/gentoo'', mounts = []\<rparr>,
        semaphore = FileSemaphore_init
          ''/work/._geni_chroot_gentoo_ade62648f08366154e9a467f73803b839d1d1603_cnt'',
        resolv_conf = FileTempInst_init ''/work/gentoo'' ''/etc/resolv.conf'',
        master = False\<rparr>) \<noteq> None
   \<and> fst (the (Chroot_enter (\<lparr>fs = [''/etc/resolv.conf'' \<mapsto> ''nameserver 10.0.0.1''],
        symlinks = {}, mtab = [], outcomes = [True, True, False], log = []\<rparr>, \<lparr>chroot_dir = ''/work/gentoo'',
        mounts_mgr = \<lparr>base_dir = ''/work/gentoo'', mounts = []\<rparr>,
        semaphore = FileSemaphore_init
          ''/work/._geni_chroot_gentoo_ade62648f08366154e9a467f73803b839d1d1603_cnt'',
        resolv_conf = FileTempInst_init ''/work/gentoo'' ''/etc/resolv.conf'',
        master = False\<rparr>))) = Inl ProcessExecutionError
   \<and> fs (fst (snd (the (Chroot_enter (\<lparr>fs = [''/etc/resolv.conf'' \<mapsto> ''nameserver 10.0.0.1''],
        symlinks = {}, mtab = [], outcomes = [True, True, False], log = []\<rparr>, \<lparr>chroot_dir = ''/work/gentoo'',
        mounts_mgr = \<lparr>base_dir = ''/work/gentoo'', mounts = []\<rparr>,
        semaphore = FileSemaphore_init
          ''/work/._geni_chroot_gentoo_ade62648f08366154e9a467f73803b839d1d1603_cnt'',
        resolv_conf = FileTempInst_init ''/work/gentoo'' ''/etc/resolv.conf'',
        master = False\<rparr>)))))
        ''/work/._geni_chroot_gentoo_ade62648f08366154e9a467f73803b839d1d1603_cnt'' = None
   \<and> mtab (fst (snd (the (Chroot_enter (\<lparr>fs = [''/etc/resolv.conf'' \<mapsto> ''nameserver 10.0.0.1''],
        symlinks = {}, mtab = [], outcomes = [True, True, False], log = []\<rparr>, \<lparr>chroot_dir = ''/work/gentoo'',
        mounts_mgr = \<lparr>base_dir = ''/work/gentoo'', mounts = []\<rparr>,
        semaphore = FileSemaphore_init
          ''/work/._geni_chroot_gentoo_ade62648f08366154e9a467f73803b839d1d1603_cnt'',
        resolv_conf = FileTempInst_init ''/work/gentoo'' ''/etc/resolv.conf'',
        master = False\<rparr>))))) = [''/work/gentoo/tmp'']
   \<and> map mount_point (mounts (mounts_mgr (snd (snd (the (Chroot_enter (\<lparr>fs = [''/etc/resolv.conf'' \<mapsto> ''nameserver 10.0.0.1''],
        symlinks = {}, mtab = [], outcomes = [True, True, False], log = []\<rparr>, \<lparr>chroot_dir = ''/work/gentoo'',
        mounts_mgr = \<lparr>base_dir = ''/work/gentoo'', mounts = []\<rparr>,
        semaphore = FileSemaphore_init
          ''/work/._geni_chroot_gentoo_ade62648f08366154e9a467f73803b839d1d1603_cnt'',
        resolv_conf = FileTempInst_init ''/work/gentoo'' ''/etc/resolv.conf'',
        master = False\<rparr>)))))))
       = [''/work/gentoo/tmp'']
   \<and> log (fst (snd (the (Chroot_enter (\<lparr>fs = [''/etc/resolv.conf'' \<mapsto> ''nameserver 10.0.0.1''],
        symlinks = {}, mtab = [], outcomes = [True, True, False], log = []\<rparr>, \<lparr>chroot_dir = ''/work/gentoo'',
        mounts_mgr = \<lparr>base_dir = ''/work/gentoo'', mounts = []\<rparr>,
        semaphore = FileSemaphore_init
          ''/work/._geni_chroot_gentoo_ade62648f08366154e9a467f73803b839d1d1603_cnt'',
        resolv_conf = FileTempInst_init ''/work/gentoo'' ''/etc/resolv.conf'',
        master = False\<rparr>))))) =
       [(Cmd_cp ''/etc/resolv.conf'' ''/work/gentoo/etc/resolv.conf'', True),
        (Cmd_mount [''--types'', ''tmpfs''] ''geni_tmpfs'' ''/work/gentoo/tmp'', True),
        (Cmd_mount [''--types'', ''proc''] ''/proc'' ''/work/gentoo/proc'', False),
        (Cmd_umount [''-R''] ''/work/gentoo/proc'', False),
        (Cmd_rm ''/work/gentoo/etc/resolv.conf'', True)]"
  by (simp add: chroot_eval_defs sem_eval_defs eval_defs wait_drained.simps
      MountsManager_umount_all.simps FileInstaller_uninstall_all.simps)

section \<open>Properties: the counter under overlapping calls\<close>

text \<open>The statements of \<^verbatim>\<open>_update\<close> and of \<^verbatim>\<open>clean_up\<close>, run in a row, are the methods.\<close>

lemma FileSemaphore_update_split:
  "FileSemaphore_update self func w =
     (case update_locked self func w of
        (counter, r, w1) \<Rightarrow>
          (case finally_remove_lock self w1 of
             (Inl e, w2) \<Rightarrow> (Inl e, w2)
           | (Inr _, w2) \<Rightarrow> finally_remove_counter self counter r w2))"
  by (simp add: FileSemaphore_update_def update_locked_def finally_remove_lock_def
      finally_remove_counter_def update_finally_def Let_def split: sum.splits prod.splits)

lemma clean_up_split:
  "clean_up (w, self) =
     (case FileSemaphore_down (semaphore self) w of
        (Inl e, w1) \<Rightarrow> Some (Inl e, (w1, self))
      | (Inr _, w1) \<Rightarrow> clean_up_rest (w1, self))"
  by (simp add: clean_up_def clean_up_rest_def split: sum.splits prod.splits)

lemma prepare_split:
  "prepare (w, self) =
     (case FileSemaphore_up (semaphore self) w of
        (Inl e, w1) \<Rightarrow> (Inl e, (w1, self))
      | (Inr v, w1) \<Rightarrow> prepare_rest (v = 1) (w1, self))"
  by (simp add: prepare_def)

text \<open>
  Claim C1 at a failing input. Two processes A and B have a session each for
  \<^verbatim>\<open>/work/gentoo\<close>; every \<^verbatim>\<open>__exit__\<close> follows a successful \<^verbatim>\<open>__enter__\<close> of
  the same session. A enters as master (the counter file holds 1). A leaves: inside
  \<^verbatim>\<open>down()\<close> it writes 0, releases the lock and removes the lock file. Before A reaches
  \<^verbatim>\<open>if counter == 0: os.remove(self.sem_file_path)\<close>, B enters and its \<^verbatim>\<open>up()\<close>
  reads 0, writes 1 and returns 1. Now A removes the counter file, with B's increment in it,
  and tears down; B finishes its setup and has its executor. B leaves: \<^verbatim>\<open>down()\<close> finds
  no counter file and writes -1. All calls have returned, no session is entered, and the
  counter file holds -1.
\<close>

theorem late_counter_removal_race:
  "(case Chroot_enter (\<lparr>fs = [''/etc/resolv.conf'' \<mapsto> ''nameserver 10.0.0.1''], symlinks = {},
        mtab = [''/dev'', ''/sys'', ''/proc'', ''/tmp''], outcomes = [], log = []\<rparr>, \<lparr>chroot_dir = ''/work/gentoo'',
        mounts_mgr = \<lparr>base_dir = ''/work/gentoo'', mounts = []\<rparr>,
        semaphore = FileSemaphore_init
          ''/work/._geni_chroot_gentoo_ade62648f08366154e9a467f73803b839d1d1603_cnt'',
        resolv_conf = FileTempInst_init ''/work/gentoo'' ''/etc/resolv.conf'',
        master = False\<rparr>) of
      None \<Rightarrow> False
    | Some (entered_A, w1, session_A) \<Rightarrow>
    case update_locked (semaphore session_A) (\<lambda>counter. counter - 1) w1 of
      (counter, r, w2) \<Rightarrow>
    case finally_remove_lock (semaphore session_A) w2 of
      (lock_removed_A, w3) \<Rightarrow>
    case FileSemaphore_up (semaphore \<lparr>chroot_dir = ''/work/gentoo'',
        mounts_mgr = \<lparr>base_dir = ''/work/gentoo'', mounts = []\<rparr>,
        semaphore = FileSemaphore_init
          ''/work/._geni_chroot_gentoo_ade62648f08366154e9a467f73803b839d1d1603_cnt'',
        resolv_conf = FileTempInst_init ''/work/gentoo'' ''/etc/resolv.conf'',
        master = False\<rparr>) w3 of
      (up_B, w4) \<Rightarrow>
    case finally_remove_counter (semaphore session_A) counter r w4 of
      (down_A, w5) \<Rightarrow>
    case clean_up_rest (w5, session_A) of
      None \<Rightarrow> False
    | Some (left_A, w6, session_A1) \<Rightarrow>
    case prepare_rest True (w6, \<lparr>chroot_dir = ''/work/gentoo'',
        mounts_mgr = \<lparr>base_dir = ''/work/gentoo'', mounts = []\<rparr>,
        semaphore = FileSemaphore_init
          ''/work/._geni_chroot_gentoo_ade62648f08366154e9a467f73803b839d1d1603_cnt'',
        resolv_conf = FileTempInst_init ''/work/gentoo'' ''/etc/resolv.conf'',
        master = False\<rparr>) of
      (prepared_B, w7, session_B) \<Rightarrow>
    case Chroot_exit (w7, session_B) of
      None \<Rightarrow> False
    | Some (left_B, w8, session_B1) \<Rightarrow>
        entered_A = Inr (ChrootExec ''/work/gentoo'')
      \<and> lock_removed_A = Inr ()
      \<and> up_B = Inr 1
      \<and> down_A = Inr 0
      \<and> left_A = Inr ()
      \<and> prepared_B = Inr ()
      \<and> left_B = Inr ()
      \<and> mtab w8 = [''/dev'', ''/sys'', ''/proc'', ''/tmp'']
      \<and> fs w8 ''/work/._geni_chroot_gentoo_ade62648f08366154e9a467f73803b839d1d1603_cnt'' = Some ''-1''
      \<and> stored_counter (semaphore session_B) w8 = Inr (- 1))"
  by (simp add: chroot_eval_defs sem_eval_defs eval_defs wait_drained.simps
      MountsManager_umount_all.simps FileInstaller_uninstall_all.simps
      update_locked_def finally_remove_lock_def finally_remove_counter_def clean_up_rest_def
      Chroot_exit_def)

end
